theory Spec2Isabelle
  imports Complex_Main
begin

section \<open>JavaScript numbers\<close>

text \<open>
  The front end (\<^verbatim>\<open>frontend/script.js\<close>) computes with JavaScript numbers. The
  counters are only ever written by \<^verbatim>\<open>x++\<close> starting from \<^verbatim>\<open>0\<close> and are modelled
  as \<open>nat\<close>. Times are \<^verbatim>\<open>Date\<close> objects, whose difference is a number of
  milliseconds; they are modelled as \<open>int\<close> (milliseconds since the epoch).

  Coordinates are arbitrary numbers. They are modelled by \<open>jsnum\<close>: a finite value,
  one of the two infinities, or NaN. A finite value is the real number that the
  double denotes. Every sum, difference and quotient of finite values is the exact
  result rounded to binary64 (round to nearest, ties to even, with gradual underflow
  and overflow to an infinity), as IEEE 754 and JavaScript prescribe; a number
  literal of the source is the rounding of its decimal value. A division by zero
  raises nothing, it yields an infinity or NaN, and every comparison with NaN is
  false. Signed zeros are not distinguished: every divisor of the code is the
  constant 3 or a result of \<^verbatim>\<open>Math.abs\<close>/\<^verbatim>\<open>Math.max\<close> of non-negative values, so
  a zero divisor is always \<^verbatim>\<open>+0\<close>.
\<close>

datatype jsnum = Fin real | PosInf | NegInf | NaN

text \<open>
  The binary exponent of a positive real \<open>x\<close>, the \<open>e\<close> with \<open>2^e \<le> x < 2^(e+1)\<close>,
  found by halving or doubling at most \<open>n\<close> times. With \<open>n = 1100\<close> this is exact
  on the whole range where binary64 needs it (exponents \<open>-1074\<close> to \<open>1023\<close>).
\<close>

fun binexp :: "nat \<Rightarrow> real \<Rightarrow> int" where
  "binexp 0 x = 0"
| "binexp (Suc n) x =
     (if x \<ge> 2 then binexp n (x / 2) + 1
      else if x < 1 then binexp n (x * 2) - 1
      else 0)"

text \<open>
  The integer nearest to \<open>m\<close>, given its floor \<open>f\<close>; halfway between two integers,
  the even one.
\<close>

definition nearestEven :: "real \<Rightarrow> int \<Rightarrow> int" where
  "nearestEven m f =
     (if m - of_int f < 1 / 2 then f
      else if m - of_int f > 1 / 2 then f + 1
      else if even f then f else f + 1)"

definition roundHalfEven :: "real \<Rightarrow> int" where
  "roundHalfEven m = nearestEven m \<lfloor>m\<rfloor>"

text \<open>A rounded value of magnitude \<open>2^1024\<close> or more is an infinity.\<close>

definition overflow64 :: "real \<Rightarrow> jsnum" where
  "overflow64 y =
     (if y \<ge> 2 powi 1024 then PosInf
      else if y \<le> - (2 powi 1024) then NegInf
      else Fin y)"

text \<open>Rounding to the nearest multiple of the spacing \<open>ulp\<close>.\<close>

definition roundTo :: "real \<Rightarrow> real \<Rightarrow> jsnum" where
  "roundTo ulp x = overflow64 (of_int (roundHalfEven (x / ulp)) * ulp)"

text \<open>
  Rounding of a real to binary64: 53 significant bits, so the spacing of the doubles
  around \<open>x\<close> is \<open>2^(e - 52)\<close>, with \<open>e\<close> the binary exponent of \<open>|x|\<close> but not below
  \<open>-1022\<close> (subnormal numbers).
\<close>

definition round64 :: "real \<Rightarrow> jsnum" where
  "round64 x =
     (if x = 0 then Fin 0
      else roundTo (2 powi (max (binexp 1100 \<bar>x\<bar>) (- 1022) - 52)) x)"

fun js_neg :: "jsnum \<Rightarrow> jsnum" where
  "js_neg (Fin a) = Fin (- a)"
| "js_neg PosInf = NegInf"
| "js_neg NegInf = PosInf"
| "js_neg NaN = NaN"

fun js_add :: "jsnum \<Rightarrow> jsnum \<Rightarrow> jsnum" where
  "js_add NaN y = NaN"
| "js_add x NaN = NaN"
| "js_add (Fin a) (Fin b) = round64 (a + b)"
| "js_add PosInf NegInf = NaN"
| "js_add NegInf PosInf = NaN"
| "js_add PosInf y = PosInf"
| "js_add NegInf y = NegInf"
| "js_add (Fin a) y = y"

definition js_sub :: "jsnum \<Rightarrow> jsnum \<Rightarrow> jsnum" where
  "js_sub x y = js_add x (js_neg y)"

fun js_abs :: "jsnum \<Rightarrow> jsnum" where
  "js_abs (Fin a) = Fin \<bar>a\<bar>"
| "js_abs PosInf = PosInf"
| "js_abs NegInf = PosInf"
| "js_abs NaN = NaN"

text \<open>The sign of a number that is not NaN: \<open>-1\<close>, \<open>0\<close> or \<open>1\<close>.\<close>

fun js_sign :: "jsnum \<Rightarrow> int" where
  "js_sign (Fin a) = (if a < 0 then - 1 else if a = 0 then 0 else 1)"
| "js_sign PosInf = 1"
| "js_sign NegInf = - 1"
| "js_sign NaN = 0"

fun js_div :: "jsnum \<Rightarrow> jsnum \<Rightarrow> jsnum" where
  "js_div NaN y = NaN"
| "js_div x NaN = NaN"
| "js_div (Fin a) (Fin b) =
     (if b \<noteq> 0 then round64 (a / b)
      else if a = 0 then NaN
      else if a > 0 then PosInf else NegInf)"
| "js_div (Fin a) y = Fin 0"
| "js_div x (Fin b) =
     (if js_sign x * (if b < 0 then - 1 else 1) > 0 then PosInf else NegInf)"
| "js_div x y = NaN"

text \<open>\<^verbatim>\<open>a > b\<close> and \<^verbatim>\<open>a < b\<close>: false as soon as one side is NaN.\<close>

fun js_gt :: "jsnum \<Rightarrow> jsnum \<Rightarrow> bool" where
  "js_gt NaN y = False"
| "js_gt x NaN = False"
| "js_gt (Fin a) (Fin b) = (a > b)"
| "js_gt PosInf y = (y \<noteq> PosInf)"
| "js_gt x NegInf = (x \<noteq> NegInf)"
| "js_gt x y = False"

definition js_lt :: "jsnum \<Rightarrow> jsnum \<Rightarrow> bool" where
  "js_lt x y = js_gt y x"

text \<open>\<^verbatim>\<open>Math.min\<close> and \<^verbatim>\<open>Math.max\<close>: NaN as soon as one argument is NaN.\<close>

definition js_min :: "jsnum \<Rightarrow> jsnum \<Rightarrow> jsnum" where
  "js_min x y = (if x = NaN \<or> y = NaN then NaN else if js_gt x y then y else x)"

definition js_max :: "jsnum \<Rightarrow> jsnum \<Rightarrow> jsnum" where
  "js_max x y = (if x = NaN \<or> y = NaN then NaN else if js_gt y x then y else x)"

text \<open>
  \<^verbatim>\<open>xs[i]\<close> on an array of numbers used as an operand: out of range the array yields
  \<^verbatim>\<open>undefined\<close>, which arithmetic converts to NaN.
\<close>

definition el :: "jsnum list \<Rightarrow> nat \<Rightarrow> jsnum" where
  "el xs i = (if i < length xs then xs ! i else NaN)"

section \<open>Session state\<close>

text \<open>
  The global variables of \<^verbatim>\<open>script.js\<close> (lines 5--38) that carry the proctoring
  state, as one record. An event-log message is a template of the source with the
  values it interpolates; \<open>logEvent\<close> stamps each entry with the wall-clock reading
  (\<^verbatim>\<open>HH:MM:SS\<close>) that the operation is given.
\<close>

datatype severity = Info | Success | Warning | Error

datatype event_message =
    StartingInterview
  | VideoRecordingStarted
  | VideoRecordingNotSupported
  | InterviewStarted
  | ErrorAccessingCamera
  | FaceDetectionInitialized
  | ObjectDetectionInitialized
  | InterviewStopped
  | FaceDetectedAgain
  | MultipleFacesDetected nat
  | NoFaceDetected
  | StartedLookingAway
  | LookedAway nat
  | ReturnedToScreen
  | MobilePhoneDetected real
  | BookDetected real
  | ElectronicDeviceDetected string real
  | GeneratingReport
  | ReportSaved
  | ErrorSavingReport
  | PdfReportDownloaded
  | ErrorGeneratingPdf
  | LocalReportDownloaded

record logEntry =
  timestamp :: string
  message :: event_message
  etype :: severity

datatype focus = Idle | NoFaceShown | LookingAwayShown | CandidateFocused

record session =
  isInterviewRunning :: bool
  startTime :: "int option"
  lookAwayCount :: nat
  noFaceCount :: nat
  multipleFacesCount :: nat
  gazeDirectionHistory :: "bool list"
  phoneCount :: nat
  bookCount :: nat
  deviceCount :: nat
  lastFaceDetectedTime :: "int option"
  lookingAwayStartTime :: "int option"
  noFaceStartTime :: "int option"
  eventLog :: "logEntry list"
  focusIndicator :: focus

definition GAZE_HISTORY_LENGTH :: nat where
  "GAZE_HISTORY_LENGTH = 8"

definition PROHIBITED_ITEMS :: "string list" where
  "PROHIBITED_ITEMS = [''cell phone'', ''book'', ''laptop'', ''keyboard'', ''mouse'', ''remote'']"

definition initial_session :: session where
  "initial_session =
     \<lparr> isInterviewRunning = False, startTime = None,
       lookAwayCount = 0, noFaceCount = 0, multipleFacesCount = 0,
       gazeDirectionHistory = [],
       phoneCount = 0, bookCount = 0, deviceCount = 0,
       lastFaceDetectedTime = None, lookingAwayStartTime = None, noFaceStartTime = None,
       eventLog = [], focusIndicator = Idle \<rparr>"

definition logEvent :: "event_message \<Rightarrow> severity \<Rightarrow> string \<Rightarrow> session \<Rightarrow> session" where
  "logEvent m t ts st =
     st\<lparr>eventLog := eventLog st @ [\<lparr>timestamp = ts, message = m, etype = t\<rparr>]\<rparr>"

section \<open>Integrity scorer\<close>

text \<open>
  \<^verbatim>\<open>updateStatusIndicators\<close> (lines 309--324) and \<^verbatim>\<open>downloadReport\<close> (lines 761--763)
  compute the same two expressions; \<^verbatim>\<open>updateScoreDisplay\<close> (lines 354--366) picks the
  label shown next to the score, \<^verbatim>\<open>getScoreDescription\<close> (lines 1033--1038) the line
  of the textual report.
\<close>

definition deductions :: "session \<Rightarrow> int" where
  "deductions st =
     (int (lookAwayCount st) * 2) + (int (noFaceCount st) * 5) + (int (multipleFacesCount st) * 10) +
     (int (phoneCount st) * 10) + (int (bookCount st) * 8) + (int (deviceCount st) * 7)"

definition integrityScore :: "session \<Rightarrow> int" where
  "integrityScore st = max 0 (100 - deductions st)"

definition scoreLabel :: "int \<Rightarrow> string" where
  "scoreLabel score =
     (if score \<ge> 90 then ''Excellent''
      else if score \<ge> 70 then ''Good''
      else if score \<ge> 50 then ''Fair''
      else ''Poor'')"

definition getScoreDescription :: "int \<Rightarrow> string" where
  "getScoreDescription score =
     (if score \<ge> 90 then ''EXCELLENT - No significant issues detected''
      else if score \<ge> 70 then ''GOOD - Minor focus issues observed''
      else if score \<ge> 50 then ''FAIR - Several focus and integrity concerns''
      else ''POOR - Significant integrity issues detected'')"

text \<open>What \<^verbatim>\<open>updateStatusIndicators\<close> writes to the score display: the score and its label.\<close>

definition updateStatusIndicators :: "session \<Rightarrow> int \<times> string" where
  "updateStatusIndicators st = (integrityScore st, scoreLabel (integrityScore st))"

section \<open>Gaze classifier\<close>

text \<open>
  One face of the detector's result. \<^verbatim>\<open>checkGazeDirection\<close> reads
  \<^verbatim>\<open>face.landmarks[0]\<close> (right eye), \<^verbatim>\<open>face.landmarks[1]\<close> (left eye) and
  \<^verbatim>\<open>face.landmarks[2]\<close> (nose); the record has one field for each, so a face
  without them is excluded by the type. Each is an array of numbers, read at the
  indices the source uses.
\<close>

record face =
  topLeft :: "jsnum list"
  bottomRight :: "jsnum list"
  rightEye :: "jsnum list"
  leftEye :: "jsnum list"
  nose :: "jsnum list"

text \<open>Lines 548--556: the centre of an eye, \<open>x\<close> from indices 0, 2, 4 and \<open>y\<close> from 1, 3, 5.\<close>

definition eyeCenter :: "jsnum list \<Rightarrow> jsnum \<times> jsnum" where
  "eyeCenter e =
     (js_div (js_add (js_add (el e 0) (el e 2)) (el e 4)) (Fin 3),
      js_div (js_add (js_add (el e 1) (el e 3)) (el e 5)) (Fin 3))"

definition rightEyeDistance :: "face \<Rightarrow> jsnum" where
  "rightEyeDistance f = js_abs (js_sub (fst (eyeCenter (rightEye f))) (el (nose f) 0))"

definition leftEyeDistance :: "face \<Rightarrow> jsnum" where
  "leftEyeDistance f = js_abs (js_sub (fst (eyeCenter (leftEye f))) (el (nose f) 0))"

definition faceWidth :: "face \<Rightarrow> jsnum" where
  "faceWidth f = js_abs (js_sub (el (topLeft f) 0) (el (bottomRight f) 0))"

definition normalizedRightDistance :: "face \<Rightarrow> jsnum" where
  "normalizedRightDistance f = js_div (rightEyeDistance f) (faceWidth f)"

definition normalizedLeftDistance :: "face \<Rightarrow> jsnum" where
  "normalizedLeftDistance f = js_div (leftEyeDistance f) (faceWidth f)"

definition eyeDistanceRatio :: "face \<Rightarrow> jsnum" where
  "eyeDistanceRatio f =
     js_div (js_min (normalizedRightDistance f) (normalizedLeftDistance f))
            (js_max (normalizedRightDistance f) (normalizedLeftDistance f))"

definition lookingAwayThreshold :: jsnum where
  "lookingAwayThreshold = round64 0.12"

definition ratioThreshold :: jsnum where
  "ratioThreshold = round64 0.7"

text \<open>Lines 577--579: the raw sample of one frame, the local \<^verbatim>\<open>isLookingAway\<close>.\<close>

definition isLookingAway :: "face \<Rightarrow> bool" where
  "isLookingAway f =
     ((js_gt (normalizedRightDistance f) lookingAwayThreshold \<and>
       js_gt (normalizedLeftDistance f) lookingAwayThreshold) \<or>
      js_lt (eyeDistanceRatio f) ratioThreshold)"

section \<open>Temporal debouncer and look-away episodes\<close>

text \<open>Lines 582--585: \<^verbatim>\<open>push\<close>, then one \<^verbatim>\<open>shift\<close> if the array is longer than the window.\<close>

definition pushGaze :: "bool \<Rightarrow> bool list \<Rightarrow> bool list" where
  "pushGaze b h = (let h' = h @ [b] in if length h' > GAZE_HISTORY_LENGTH then tl h' else h')"

text \<open>Lines 588--589.\<close>

definition lookingAwayFrames :: "bool list \<Rightarrow> nat" where
  "lookingAwayFrames h = length (filter (\<lambda>val. val) h)"

definition isConsistentlyLookingAway :: "bool list \<Rightarrow> bool" where
  "isConsistentlyLookingAway h = (real (lookingAwayFrames h) > real GAZE_HISTORY_LENGTH * 0.6)"

text \<open>\<^verbatim>\<open>(now - t0) / 1000\<close>: the seconds between two dates.\<close>

definition secondsSince :: "int \<Rightarrow> int \<Rightarrow> real" where
  "secondsSince now t0 = real_of_int (now - t0) / 1000"

text \<open>
  Lines 582--624 of \<^verbatim>\<open>checkGazeDirection\<close>, after the raw sample is known: the
  sample enters the history and the episode logic runs. The result is the returned
  boolean and the new state.
\<close>

definition gazeStep :: "bool \<Rightarrow> int \<Rightarrow> string \<Rightarrow> session \<Rightarrow> bool \<times> session" where
  "gazeStep raw now ts st =
     (let st1 = st\<lparr>gazeDirectionHistory := pushGaze raw (gazeDirectionHistory st)\<rparr> in
      if isConsistentlyLookingAway (gazeDirectionHistory st1) then
        (case lookingAwayStartTime st1 of
           None \<Rightarrow>
             (False, logEvent StartedLookingAway Warning ts (st1\<lparr>lookingAwayStartTime := Some now\<rparr>))
         | Some t0 \<Rightarrow>
             if secondsSince now t0 > 2 then
               (let st2 = st1\<lparr>lookAwayCount := lookAwayCount st1 + 1\<rparr>;
                    st3 = logEvent (LookedAway (lookAwayCount st2)) Warning ts st2
                in (True, st3\<lparr>lookingAwayStartTime := Some now\<rparr>))
             else (False, st1))
      else
        (case lookingAwayStartTime st1 of
           None \<Rightarrow> (False, st1)
         | Some t0 \<Rightarrow>
             (let st2 = (if secondsSince now t0 > 1 then logEvent ReturnedToScreen Success ts st1 else st1)
              in (False, st2\<lparr>lookingAwayStartTime := None\<rparr>))))"

definition checkGazeDirection :: "face \<Rightarrow> int \<Rightarrow> string \<Rightarrow> session \<Rightarrow> bool \<times> session" where
  "checkGazeDirection f now ts st = gazeStep (isLookingAway f) now ts st"

section \<open>Attention state tracker\<close>

text \<open>Lines 520--538.\<close>

definition handleNoFaceDetected :: "int \<Rightarrow> string \<Rightarrow> session \<Rightarrow> session" where
  "handleNoFaceDetected now ts st =
     (case noFaceStartTime st of
        None \<Rightarrow> st\<lparr>noFaceStartTime := Some now\<rparr>
      | Some t0 \<Rightarrow>
          if secondsSince now t0 > 8 \<and> noFaceCount st = 0 then
            (let st1 = st\<lparr>noFaceCount := noFaceCount st + 1\<rparr>;
                 st2 = logEvent NoFaceDetected Error ts st1
             in st2\<lparr>noFaceStartTime := Some now\<rparr>)
          else st)"

text \<open>
  Lines 501--507: the \<^verbatim>\<open>forEach\<close> over the faces, with the local flag
  \<^verbatim>\<open>isLookingAway\<close> of \<^verbatim>\<open>processFaceDetectionResults\<close> as accumulator. All faces
  of a frame are checked with the same \<^verbatim>\<open>now\<close>.
\<close>

fun forEachFace :: "face list \<Rightarrow> int \<Rightarrow> string \<Rightarrow> bool \<times> session \<Rightarrow> bool \<times> session" where
  "forEachFace [] now ts acc = acc"
| "forEachFace (f # fs) now ts (flag, st) =
     (let (r, st') = checkGazeDirection f now ts st
      in forEachFace fs now ts (if r then True else flag, st'))"

text \<open>Lines 466--517.\<close>

definition processFaceDetectionResults :: "face list \<Rightarrow> int \<Rightarrow> string \<Rightarrow> session \<Rightarrow> session" where
  "processFaceDetectionResults faces now ts st =
     (if length faces = 0 then
        handleNoFaceDetected now ts
          (st\<lparr>gazeDirectionHistory := [], focusIndicator := NoFaceShown\<rparr>)
      else
        (let st1 = st\<lparr>lastFaceDetectedTime := Some now\<rparr>;
             st2 = (if noFaceStartTime st1 \<noteq> None
                    then logEvent FaceDetectedAgain Success ts (st1\<lparr>noFaceStartTime := None\<rparr>)
                    else st1);
             st3 = (if length faces > 1 \<and> multipleFacesCount st2 = 0
                    then logEvent (MultipleFacesDetected (length faces)) Error ts
                           (st2\<lparr>multipleFacesCount := multipleFacesCount st2 + 1\<rparr>)
                    else st2);
             (flag, st4) = forEachFace faces now ts (False, st3)
         in st4\<lparr>focusIndicator := (if flag then LookingAwayShown else CandidateFocused)\<rparr>))"

section \<open>Object violation tracker\<close>

record detection =
  dclass :: string
  score :: real

text \<open>Lines 733--753.\<close>

definition handleProhibitedItemDetection :: "detection \<Rightarrow> string \<Rightarrow> session \<Rightarrow> session" where
  "handleProhibitedItemDetection item ts st =
     (if dclass item = ''cell phone'' then
        logEvent (MobilePhoneDetected (score item)) Error ts (st\<lparr>phoneCount := phoneCount st + 1\<rparr>)
      else if dclass item = ''book'' then
        logEvent (BookDetected (score item)) Error ts (st\<lparr>bookCount := bookCount st + 1\<rparr>)
      else if dclass item \<in> set [''laptop'', ''keyboard'', ''mouse'', ''remote''] then
        logEvent (ElectronicDeviceDetected (dclass item) (score item)) Error ts
          (st\<lparr>deviceCount := deviceCount st + 1\<rparr>)
      else st)"

text \<open>Lines 698--709: the filter, then \<^verbatim>\<open>forEach\<close> over what it keeps.\<close>

definition isProhibited :: "detection \<Rightarrow> bool" where
  "isProhibited prediction = (dclass prediction \<in> set PROHIBITED_ITEMS \<and> score prediction > 0.6)"

definition processObjectDetectionResults :: "detection list \<Rightarrow> string \<Rightarrow> session \<Rightarrow> session" where
  "processObjectDetectionResults predictions ts st =
     foldl (\<lambda>s item. handleProhibitedItemDetection item ts s) st (filter isProhibited predictions)"

section \<open>Session orchestrator\<close>

text \<open>
  \<^verbatim>\<open>startInterview\<close> (lines 97--148): the camera request either fails (logged) or,
  once the video metadata is loaded, the session is marked running and the two
  polling timers are installed. No counter, history or log is reset here or anywhere
  else in the file. \<open>recorder\<close> says whether \<^verbatim>\<open>startVideoRecording\<close> found the codec.
\<close>

definition startInterview :: "bool \<Rightarrow> bool \<Rightarrow> int \<Rightarrow> string \<Rightarrow> session \<Rightarrow> session" where
  "startInterview camera recorder now ts st =
     (let st1 = logEvent StartingInterview Info ts st in
      if \<not> camera then logEvent ErrorAccessingCamera Error ts st1
      else
        (let st2 = st1\<lparr>isInterviewRunning := True, startTime := Some now,
                       lastFaceDetectedTime := Some now\<rparr>;
             st3 = (if recorder then logEvent VideoRecordingStarted Info ts st2
                    else logEvent VideoRecordingNotSupported Warning ts st2);
             st4 = logEvent InterviewStarted Success ts st3;
             st5 = logEvent FaceDetectionInitialized Info ts st4
         in logEvent ObjectDetectionInitialized Info ts st5))"

text \<open>\<^verbatim>\<open>stopInterview\<close> (lines 151--187).\<close>

definition stopInterview :: "string \<Rightarrow> session \<Rightarrow> session" where
  "stopInterview ts st =
     (if \<not> isInterviewRunning st then st
      else logEvent InterviewStopped Info ts (st\<lparr>isInterviewRunning := False\<rparr>))"

text \<open>
  The timer callbacks (lines 445--462 and 685--694): nothing happens unless the
  interview is running; a detector that throws (\<open>None\<close>) is caught and only written
  to the console.
\<close>

definition faceDetectionTick :: "face list option \<Rightarrow> int \<Rightarrow> string \<Rightarrow> session \<Rightarrow> session" where
  "faceDetectionTick r now ts st =
     (if \<not> isInterviewRunning st then st
      else case r of None \<Rightarrow> st | Some faces \<Rightarrow> processFaceDetectionResults faces now ts st)"

definition objectDetectionTick :: "detection list option \<Rightarrow> string \<Rightarrow> session \<Rightarrow> session" where
  "objectDetectionTick r ts st =
     (if \<not> isInterviewRunning st then st
      else case r of None \<Rightarrow> st | Some predictions \<Rightarrow> processObjectDetectionResults predictions ts st)"

section \<open>Report export and the reports endpoint\<close>

text \<open>
  The payload of \<^verbatim>\<open>downloadReport\<close> (lines 766--783) as the server receives it
  in \<^verbatim>\<open>req.body\<close>: each of the eight properties is either present or
  \<^verbatim>\<open>undefined\<close>. The fields that share a name with a global variable of the front
  end carry the suffix \<open>_r\<close>.
\<close>

record focusIssues_t =
  lookAwayCount_r :: nat
  noFaceCount_r :: nat
  multipleFacesCount_r :: nat

record prohibitedItems_t =
  phonesDetected :: nat
  booksDetected :: nat
  devicesDetected :: nat

record reportData_t =
  candidateName :: "string option"
  interviewDuration :: "string option"
  startTime_r :: "string option"
  endTime :: "string option"
  focusIssues :: "focusIssues_t option"
  prohibitedItems :: "prohibitedItems_t option"
  integrityScore_r :: "int option"
  events :: "logEntry list option"

text \<open>
  Lines 760--783. \<open>duration\<close> is the text of the duration display, \<open>toISO\<close> stands for
  \<^verbatim>\<open>Date.prototype.toISOString\<close>, \<open>endNow\<close> for the clock. Without a start time
  \<^verbatim>\<open>startTime.toISOString()\<close> throws and no payload exists. The payload refers to
  the live event log and is serialised when the request is sent, so \<open>st\<close> is the state
  at that moment, after \<^verbatim>\<open>downloadReport\<close> has logged its first message.
\<close>

definition reportData :: "string \<Rightarrow> (int \<Rightarrow> string) \<Rightarrow> int \<Rightarrow> session \<Rightarrow> reportData_t option" where
  "reportData duration toISO endNow st =
     (case startTime st of
        None \<Rightarrow> None
      | Some t0 \<Rightarrow>
          Some \<lparr> candidateName = Some ''Test Candidate'',
                 interviewDuration = Some duration,
                 startTime_r = Some (toISO t0),
                 endTime = Some (toISO endNow),
                 focusIssues = Some \<lparr> lookAwayCount_r = lookAwayCount st,
                                       noFaceCount_r = noFaceCount st,
                                       multipleFacesCount_r = multipleFacesCount st \<rparr>,
                 prohibitedItems = Some \<lparr> phonesDetected = phoneCount st,
                                           booksDetected = bookCount st,
                                           devicesDetected = deviceCount st \<rparr>,
                 integrityScore_r = Some (integrityScore st),
                 events = Some (eventLog st) \<rparr>)"

text \<open>
  \<^verbatim>\<open>generatePDFReport\<close> (lines 815--973) as an operation on the session: it logs the
  download of the PDF or, when the PDF library throws (\<open>pdf\<close> false), the error and
  then the download of the text report by \<^verbatim>\<open>downloadLocalReport\<close> (line 1029).
\<close>

definition generatePDFReport :: "bool \<Rightarrow> string \<Rightarrow> session \<Rightarrow> session" where
  "generatePDFReport pdf ts st =
     (if pdf then logEvent PdfReportDownloaded Success ts st
      else logEvent LocalReportDownloaded Success ts (logEvent ErrorGeneratingPdf Error ts st))"

text \<open>
  \<^verbatim>\<open>downloadReport\<close> as an operation on the session (lines 756--812): it logs, reads the
  state into the payload, logs the outcome of the request (\<open>ok\<close>) and generates the
  PDF in both cases.
\<close>

definition downloadReport :: "bool \<Rightarrow> bool \<Rightarrow> string \<Rightarrow> session \<Rightarrow> session" where
  "downloadReport ok pdf ts st =
     (let st1 = logEvent GeneratingReport Info ts st in
      if startTime st1 = None then st1
      else if ok then generatePDFReport pdf ts (logEvent ReportSaved Success ts st1)
      else generatePDFReport pdf ts (logEvent ErrorSavingReport Error ts st1))"

text \<open>
  JavaScript's \<^verbatim>\<open>a || b\<close> on the three kinds of values of the payload: a missing
  property is falsy, and so are the empty string and the number zero; an object or an
  array is always truthy.
\<close>

definition or_string :: "string option \<Rightarrow> string \<Rightarrow> string" where
  "or_string a b = (case a of None \<Rightarrow> b | Some s \<Rightarrow> if s = [] then b else s)"

definition or_number :: "int option \<Rightarrow> int \<Rightarrow> int" where
  "or_number a b = (case a of None \<Rightarrow> b | Some n \<Rightarrow> if n = 0 then b else n)"

definition or_object :: "'a option \<Rightarrow> 'a \<Rightarrow> 'a" where
  "or_object a b = (case a of None \<Rightarrow> b | Some x \<Rightarrow> x)"

text \<open>The persisted report record (the server's \<^verbatim>\<open>report\<close> object, lines 79--98).\<close>

record report =
  id_s :: string
  timestamp_s :: string
  candidateName_s :: string
  interviewDuration_s :: string
  startTime_s :: string
  endTime_s :: string
  focusIssues_s :: focusIssues_t
  prohibitedItems_s :: prohibitedItems_t
  integrityScore_s :: int
  events_s :: "logEntry list"

text \<open>
  The handler of \<^verbatim>\<open>POST /api/reports\<close> (server, lines 66--117): \<open>newId\<close> is the
  result of \<^verbatim>\<open>generateId()\<close> and \<open>nowISO\<close> the server's clock. The record is kept in
  memory and written as JSON; reading it back yields the same values.
\<close>

definition post_reports :: "string \<Rightarrow> string \<Rightarrow> reportData_t \<Rightarrow> report" where
  "post_reports newId nowISO body =
     \<lparr> id_s = newId,
       timestamp_s = nowISO,
       candidateName_s = or_string (candidateName body) ''Test Candidate'',
       interviewDuration_s = or_string (interviewDuration body) ''00:00:00'',
       startTime_s = or_string (startTime_r body) nowISO,
       endTime_s = or_string (endTime body) nowISO,
       focusIssues_s = or_object (focusIssues body)
         \<lparr> lookAwayCount_r = 0, noFaceCount_r = 0, multipleFacesCount_r = 0 \<rparr>,
       prohibitedItems_s = or_object (prohibitedItems body)
         \<lparr> phonesDetected = 0, booksDetected = 0, devicesDetected = 0 \<rparr>,
       integrityScore_s = or_number (integrityScore_r body) 100,
       events_s = or_object (events body) [] \<rparr>"

section \<open>Sessions as sequences of operations\<close>

datatype operation =
    StartInterview bool bool int string
  | StopInterview string
  | FaceTick "face list option" int string
  | ObjectTick "detection list option" string
  | DownloadReport bool bool string

fun step :: "session \<Rightarrow> operation \<Rightarrow> session" where
  "step st (StartInterview camera recorder now ts) = startInterview camera recorder now ts st"
| "step st (StopInterview ts) = stopInterview ts st"
| "step st (FaceTick r now ts) = faceDetectionTick r now ts st"
| "step st (ObjectTick r ts) = objectDetectionTick r ts st"
| "step st (DownloadReport ok pdf ts) = downloadReport ok pdf ts st"

definition run :: "session \<Rightarrow> operation list \<Rightarrow> session" where
  "run st ops = foldl step st ops"

text \<open>Feeding a list of raw samples to the debouncer, oldest first.\<close>

definition feedGaze :: "bool list \<Rightarrow> bool list \<Rightarrow> bool list" where
  "feedGaze h samples = foldl (\<lambda>w b. pushGaze b w) h samples"

text \<open>Frames of a fixed face list at a fixed cadence, the first one at \<open>t0\<close>.\<close>

fun framesAt :: "face list \<Rightarrow> int \<Rightarrow> int \<Rightarrow> string \<Rightarrow> nat \<Rightarrow> session \<Rightarrow> session" where
  "framesAt faces t0 period ts 0 st = st"
| "framesAt faces t0 period ts (Suc n) st =
     framesAt faces (t0 + period) period ts n (processFaceDetectionResults faces t0 ts st)"

section \<open>Concrete inputs\<close>

text \<open>
  Three synthetic faces in a frame 100 pixels wide with the nose at \<open>x = 50\<close>: one
  with both eyes 30 pixels from the nose, one with both eyes 5 pixels from it, and
  the first one again with a bounding box of width zero.
\<close>

definition awayFace :: face where
  "awayFace =
     \<lparr> topLeft = [Fin 0, Fin 0], bottomRight = [Fin 100, Fin 100],
       rightEye = [Fin 20, Fin 40, Fin 20, Fin 40, Fin 20, Fin 40],
       leftEye = [Fin 80, Fin 40, Fin 80, Fin 40, Fin 80, Fin 40],
       nose = [Fin 50, Fin 60] \<rparr>"

definition focusedFace :: face where
  "focusedFace =
     \<lparr> topLeft = [Fin 0, Fin 0], bottomRight = [Fin 100, Fin 100],
       rightEye = [Fin 45, Fin 40, Fin 45, Fin 40, Fin 45, Fin 40],
       leftEye = [Fin 55, Fin 40, Fin 55, Fin 40, Fin 55, Fin 40],
       nose = [Fin 50, Fin 60] \<rparr>"

definition zeroWidthFace :: face where
  "zeroWidthFace =
     \<lparr> topLeft = [Fin 50, Fin 0], bottomRight = [Fin 50, Fin 100],
       rightEye = [Fin 20, Fin 40, Fin 20, Fin 40, Fin 20, Fin 40],
       leftEye = [Fin 80, Fin 40, Fin 80, Fin 40, Fin 80, Fin 40],
       nose = [Fin 50, Fin 60] \<rparr>"

text \<open>
  A face in a box from \<open>x = 0\<close> to \<open>x = 147\<close> with the eyes at \<open>x = 63\<close> and \<open>x = 80\<close>
  and the nose at \<open>x = 70\<close>: the distances 7 and 10 have the exact ratio \<open>0.7\<close>.
\<close>

definition ratioBoundaryFace :: face where
  "ratioBoundaryFace =
     \<lparr> topLeft = [Fin 0, Fin 0], bottomRight = [Fin 147, Fin 147],
       rightEye = [Fin 63, Fin 40, Fin 63, Fin 40, Fin 63, Fin 40],
       leftEye = [Fin 80, Fin 40, Fin 80, Fin 40, Fin 80, Fin 40],
       nose = [Fin 70, Fin 60] \<rparr>"

text \<open>
  A face with a bounding box of width zero whose eye points and nose all have the
  \<open>x\<close>-coordinate written \<^verbatim>\<open>0.1\<close>, and one where they all have \<open>x = 50\<close>.
\<close>

definition zeroWidthTenthFace :: face where
  "zeroWidthTenthFace =
     \<lparr> topLeft = [Fin 50, Fin 0], bottomRight = [Fin 50, Fin 100],
       rightEye = [round64 0.1, Fin 40, round64 0.1, Fin 40, round64 0.1, Fin 40],
       leftEye = [round64 0.1, Fin 40, round64 0.1, Fin 40, round64 0.1, Fin 40],
       nose = [round64 0.1, Fin 60] \<rparr>"

definition zeroWidthCentredFace :: face where
  "zeroWidthCentredFace =
     \<lparr> topLeft = [Fin 50, Fin 0], bottomRight = [Fin 50, Fin 100],
       rightEye = [Fin 50, Fin 40, Fin 50, Fin 40, Fin 50, Fin 40],
       leftEye = [Fin 50, Fin 40, Fin 50, Fin 40, Fin 50, Fin 40],
       nose = [Fin 50, Fin 60] \<rparr>"

text \<open>A stopped session in which ten phone detections were counted.\<close>

definition tenPhonesSession :: session where
  "tenPhonesSession = initial_session\<lparr>startTime := Some 0, phoneCount := 10\<rparr>"

section \<open>The scorer\<close>

text \<open>
  Claim C1. For every six counter values the scorer computes
  \<open>deductions = 2*lookAway + 5*noFace + 10*multipleFaces + 10*phone + 8*book + 7*device\<close>
  and \<open>score = max(0, 100 - deductions)\<close>; the score is never negative and is 0 exactly
  when the deductions reach 100; the label shown is ``Excellent'' iff the score is at
  least 90, ``Good'' iff it is in \<open>[70, 90)\<close>, ``Fair'' iff it is in \<open>[50, 70)\<close> and
  ``Poor'' otherwise.
\<close>

theorem C1_integrity_score:
  "deductions st = 2 * int (lookAwayCount st) + 5 * int (noFaceCount st)
                   + 10 * int (multipleFacesCount st) + 10 * int (phoneCount st)
                   + 8 * int (bookCount st) + 7 * int (deviceCount st)
   \<and> integrityScore st = max 0 (100 - deductions st)
   \<and> 0 \<le> integrityScore st
   \<and> (100 \<le> deductions st) = (integrityScore st = 0)
   \<and> fst (updateStatusIndicators st) = integrityScore st
   \<and> (snd (updateStatusIndicators st) = ''Excellent'') = (90 \<le> integrityScore st)
   \<and> (snd (updateStatusIndicators st) = ''Good'') = (70 \<le> integrityScore st \<and> integrityScore st < 90)
   \<and> (snd (updateStatusIndicators st) = ''Fair'') = (50 \<le> integrityScore st \<and> integrityScore st < 70)
   \<and> (snd (updateStatusIndicators st) = ''Poor'') = (integrityScore st < 50)
   \<and> (getScoreDescription (integrityScore st) = ''EXCELLENT - No significant issues detected'')
       = (90 \<le> integrityScore st)
   \<and> (getScoreDescription (integrityScore st) = ''GOOD - Minor focus issues observed'')
       = (70 \<le> integrityScore st \<and> integrityScore st < 90)
   \<and> (getScoreDescription (integrityScore st) = ''FAIR - Several focus and integrity concerns'')
       = (50 \<le> integrityScore st \<and> integrityScore st < 70)
   \<and> (getScoreDescription (integrityScore st) = ''POOR - Significant integrity issues detected'')
       = (integrityScore st < 50)"
proof -
  define d where "d = deductions st"
  define sc where "sc = integrityScore st"
  have s: "sc = max 0 (100 - d)"
    by (simp add: sc_def d_def integrityScore_def)
  have a: "deductions st = 2 * int (lookAwayCount st) + 5 * int (noFaceCount st)
                   + 10 * int (multipleFacesCount st) + 10 * int (phoneCount st)
                   + 8 * int (bookCount st) + 7 * int (deviceCount st)"
    by (simp add: deductions_def)
  have b: "0 \<le> sc" "(100 \<le> d) = (sc = 0)"
    unfolding s by auto
  have c: "fst (updateStatusIndicators st) = sc"
    "(snd (updateStatusIndicators st) = ''Excellent'') = (90 \<le> sc)"
    "(snd (updateStatusIndicators st) = ''Good'') = (70 \<le> sc \<and> sc < 90)"
    "(snd (updateStatusIndicators st) = ''Fair'') = (50 \<le> sc \<and> sc < 70)"
    "(snd (updateStatusIndicators st) = ''Poor'') = (sc < 50)"
    by (auto simp add: updateStatusIndicators_def scoreLabel_def sc_def)
  have e: "(getScoreDescription sc = ''EXCELLENT - No significant issues detected'') = (90 \<le> sc)"
    "(getScoreDescription sc = ''GOOD - Minor focus issues observed'') = (70 \<le> sc \<and> sc < 90)"
    "(getScoreDescription sc = ''FAIR - Several focus and integrity concerns'') = (50 \<le> sc \<and> sc < 70)"
    "(getScoreDescription sc = ''POOR - Significant integrity issues detected'') = (sc < 50)"
    by (auto simp add: getScoreDescription_def)
  show ?thesis
    using a b c e unfolding sc_def d_def integrityScore_def [symmetric]
    by (simp add: integrityScore_def [symmetric] del: max.absorb1 max.absorb2 max.absorb3 max.absorb4)
qed

text \<open>
  The example of the specification: one look-away and one no-face violation give
  deductions 7, score 93 and the label ``Excellent''; eleven phones give score 0.
\<close>

theorem C1_integrity_score_witness:
  "deductions (initial_session\<lparr>lookAwayCount := 1, noFaceCount := 1\<rparr>) = 7
   \<and> updateStatusIndicators (initial_session\<lparr>lookAwayCount := 1, noFaceCount := 1\<rparr>) = (93, ''Excellent'')
   \<and> integrityScore (initial_session\<lparr>phoneCount := 11\<rparr>) = 0"
  using C1_integrity_score [of "initial_session\<lparr>lookAwayCount := 1, noFaceCount := 1\<rparr>"]
        C1_integrity_score [of "initial_session\<lparr>phoneCount := 11\<rparr>"]
  by (simp add: initial_session_def updateStatusIndicators_def scoreLabel_def integrityScore_def deductions_def)

section \<open>The sliding window\<close>

lemma pushGaze_length:
  "length h \<le> GAZE_HISTORY_LENGTH \<Longrightarrow> length (pushGaze b h) \<le> GAZE_HISTORY_LENGTH"
  by (simp add: pushGaze_def Let_def)

lemma pushGaze_drop:
  "length h \<le> GAZE_HISTORY_LENGTH \<Longrightarrow>
   pushGaze b h = drop (length h + 1 - GAZE_HISTORY_LENGTH) (h @ [b])"
proof (cases "length h < GAZE_HISTORY_LENGTH")
  case True
  then show ?thesis by (simp add: pushGaze_def Let_def)
next
  case False
  assume "length h \<le> GAZE_HISTORY_LENGTH"
  with False have eq: "length h = GAZE_HISTORY_LENGTH" by simp
  then obtain a h' where h: "h = a # h'" by (cases h) (auto simp: GAZE_HISTORY_LENGTH_def)
  with eq show ?thesis by (simp add: pushGaze_def Let_def)
qed

text \<open>Fed to a window that is not over-full, the samples leave the last eight of the whole.\<close>

lemma feedGaze_drop:
  "length h \<le> GAZE_HISTORY_LENGTH \<Longrightarrow>
   feedGaze h xs = drop (length h + length xs - GAZE_HISTORY_LENGTH) (h @ xs)"
proof (induction xs arbitrary: h)
  case Nil
  then show ?case by (simp add: feedGaze_def)
next
  case (Cons b xs)
  have len: "length (pushGaze b h) \<le> GAZE_HISTORY_LENGTH"
    using Cons.prems by (rule pushGaze_length)
  have "feedGaze h (b # xs) = feedGaze (pushGaze b h) xs"
    by (simp add: feedGaze_def)
  also have "\<dots> = drop (length (pushGaze b h) + length xs - GAZE_HISTORY_LENGTH) (pushGaze b h @ xs)"
    using Cons.IH [OF len] .
  also have "\<dots> = drop (length h + length (b # xs) - GAZE_HISTORY_LENGTH) (h @ b # xs)"
  proof (cases "length h < GAZE_HISTORY_LENGTH")
    case True
    then show ?thesis by (simp add: pushGaze_def Let_def)
  next
    case False
    with Cons.prems have eq: "length h = GAZE_HISTORY_LENGTH" by simp
    then obtain a h' where h: "h = a # h'" by (cases h) (auto simp: GAZE_HISTORY_LENGTH_def)
    with eq show ?thesis by (simp add: pushGaze_def Let_def)
  qed
  finally show ?case .
qed

lemma feedGaze_length:
  "length h \<le> GAZE_HISTORY_LENGTH \<Longrightarrow> length (feedGaze h xs) \<le> GAZE_HISTORY_LENGTH"
  by (simp add: feedGaze_drop)

text \<open>A count of samples exceeds \<open>8 * 0.6 = 4.8\<close> exactly when it is at least five.\<close>

lemma consistently_iff: "isConsistentlyLookingAway h = (5 \<le> lookingAwayFrames h)"
proof -
  have "(real (lookingAwayFrames h) > 24 / 5) = (5 \<le> lookingAwayFrames h)"
    by linarith
  then show ?thesis by (simp add: isConsistentlyLookingAway_def GAZE_HISTORY_LENGTH_def)
qed

lemma gazeStep_history:
  "gazeDirectionHistory (snd (gazeStep raw now ts st)) = pushGaze raw (gazeDirectionHistory st)"
  by (simp add: gazeStep_def Let_def logEvent_def split: option.splits)

text \<open>
  Claim C2. For every sequence of raw samples fed to the debouncer (push the newest,
  evict the oldest once more than 8 are stored), the window is the last 8 samples and
  ``consistently looking away'' holds iff the number of true samples in the window is
  strictly greater than \<open>8 * 0.6 = 4.8\<close>, that is iff at least 5 of them are true: with
  a full window, 5 true samples give true and 4 give false.
\<close>

theorem C2_debounce_window:
  "gazeDirectionHistory (snd (gazeStep raw now ts st)) = pushGaze raw (gazeDirectionHistory st)
   \<and> feedGaze [] samples = drop (length samples - 8) samples
   \<and> length (feedGaze [] samples) \<le> 8
   \<and> isConsistentlyLookingAway (feedGaze [] samples)
       = (real (lookingAwayFrames (feedGaze [] samples)) > 4.8)
   \<and> isConsistentlyLookingAway (feedGaze [] samples)
       = (5 \<le> length (filter (\<lambda>val. val) (drop (length samples - 8) samples)))"
proof -
  have w: "feedGaze [] samples = drop (length samples - 8) samples"
    using feedGaze_drop [of "[]" samples] by (simp add: GAZE_HISTORY_LENGTH_def)
  have l: "length (feedGaze [] samples) \<le> 8"
    using feedGaze_length [of "[]" samples] by (simp add: GAZE_HISTORY_LENGTH_def)
  have c: "isConsistentlyLookingAway (feedGaze [] samples)
             = (real (lookingAwayFrames (feedGaze [] samples)) > 4.8)"
    by (simp add: isConsistentlyLookingAway_def GAZE_HISTORY_LENGTH_def)
  have d: "isConsistentlyLookingAway (feedGaze [] samples)
       = (5 \<le> length (filter (\<lambda>val. val) (drop (length samples - 8) samples)))"
    using w by (simp add: consistently_iff lookingAwayFrames_def)
  show ?thesis using gazeStep_history w l c d by blast
qed

text \<open>
  Eight samples with five true ones, eight with four, and nine samples whose first
  (true) one is evicted, which leaves four.
\<close>

theorem C2_debounce_window_witness:
  "isConsistentlyLookingAway (feedGaze [] [True, True, True, True, True, False, False, False])
   \<and> \<not> isConsistentlyLookingAway (feedGaze [] [True, True, True, True, False, False, False, False])
   \<and> feedGaze [] [True, True, True, True, True, False, False, False, False] =
        [True, True, True, True, False, False, False, False]
   \<and> \<not> isConsistentlyLookingAway (feedGaze [] [True, True, True, True, True, False, False, False, False])"
  using C2_debounce_window [of True 0 "''t''" initial_session "[True, True, True, True, True, False, False, False]"]
        C2_debounce_window [of True 0 "''t''" initial_session "[True, True, True, True, False, False, False, False]"]
        C2_debounce_window [of True 0 "''t''" initial_session "[True, True, True, True, True, False, False, False, False]"]
  by (simp add: feedGaze_def pushGaze_def isConsistentlyLookingAway_def lookingAwayFrames_def
        GAZE_HISTORY_LENGTH_def)

section \<open>Binary64 rounding\<close>

text \<open>With enough fuel, \<open>binexp\<close> brackets a positive real between two powers of two.\<close>

lemma binexp_bracket:
  "2 powi (- int n) \<le> x \<Longrightarrow> x < 2 powi (int n + 1) \<Longrightarrow>
   2 powi (binexp n x) \<le> x \<and> x < 2 powi (binexp n x + 1)"
proof (induction n arbitrary: x)
  case 0
  then show ?case by simp
next
  case (Suc n)
  have two: "(2::real) powi (k + 1) = 2 * 2 powi k" for k :: int
    by (simp add: power_int_add)
  show ?case
  proof (cases "x \<ge> 2")
    case True
    have "(2::real) powi (- int n) \<le> 1"
      by (simp add: power_int_minus inverse_le_1_iff)
    then have lo: "2 powi (- int n) \<le> x / 2"
      using True by linarith
    have "x < 2 * 2 powi (int n + 1)"
      using Suc.prems(2) two [of "int n + 1"] by (simp add: add.commute)
    then have hi: "x / 2 < 2 powi (int n + 1)"
      by simp
    from Suc.IH [OF lo hi] have
      b: "2 powi (binexp n (x / 2)) \<le> x / 2" "x / 2 < 2 powi (binexp n (x / 2) + 1)"
      by simp_all
    have p: "(2::real) powi (binexp n (x / 2) + 1 + 1) = 2 * 2 powi (binexp n (x / 2) + 1)"
      by (rule two)
    have q: "(2::real) powi (binexp n (x / 2) + 1) = 2 * 2 powi (binexp n (x / 2))"
      by (rule two)
    have "2 powi (binexp n (x / 2) + 1) \<le> x" "x < 2 powi (binexp n (x / 2) + 1 + 1)"
      using b p q by linarith+
    then show ?thesis
      using True by simp
  next
    case False
    show ?thesis
    proof (cases "x < 1")
      case True
      have "(2::real) powi (- int n) = 2 * 2 powi (- int (Suc n))"
        using two [of "- int (Suc n)"] by simp
      then have lo: "2 powi (- int n) \<le> x * 2"
        using Suc.prems(1) by linarith
      have "(1::real) \<le> 2 powi (int n)"
        by (simp add: one_le_power)
      then have "x * 2 < 2 * 2 powi (int n)"
        using True by linarith
      then have hi: "x * 2 < 2 powi (int n + 1)"
        by (simp only: two)
      from Suc.IH [OF lo hi] have
        b: "2 powi (binexp n (x * 2)) \<le> x * 2" "x * 2 < 2 powi (binexp n (x * 2) + 1)"
        by simp_all
      have p: "(2::real) powi (binexp n (x * 2)) = 2 * 2 powi (binexp n (x * 2) - 1)"
        using two [of "binexp n (x * 2) - 1"] by simp
      have q: "(2::real) powi (binexp n (x * 2) + 1) = 2 * 2 powi (binexp n (x * 2))"
        by (rule two)
      have "2 powi (binexp n (x * 2) - 1) \<le> x" "x < 2 powi (binexp n (x * 2))"
        using b p q by linarith+
      then show ?thesis
        using True False by simp
    next
      case False
      with \<open>\<not> 2 \<le> x\<close> show ?thesis by simp
    qed
  qed
qed


text \<open>
  Evaluating a rounding at explicit numbers: unfold it, the fuel of \<open>binexp\<close>
  being counted down one step at a time.
\<close>

lemma binexp_numeral:
  "binexp (numeral k) x =
     (if x \<ge> 2 then binexp (pred_numeral k) (x / 2) + 1
      else if x < 1 then binexp (pred_numeral k) (x * 2) - 1
      else 0)"
  by (simp add: numeral_eq_Suc)

lemmas round64_eval = round64_def roundTo_def overflow64_def roundHalfEven_def nearestEven_def
  binexp_numeral

text \<open>
  The literals of the classifier and of the examples as doubles, and the sum that
  shows the rounding: \<^verbatim>\<open>0.1 + 0.1 + 0.1\<close> is \<^verbatim>\<open>0.30000000000000004\<close>, not the double
  written \<^verbatim>\<open>0.3\<close>.
\<close>

lemma round64_literals:
  "round64 0.12 = Fin (1080863910568919 / 9007199254740992)"
  "round64 0.7 = Fin (3152519739159347 / 4503599627370496)"
  "round64 0.1 = Fin (3602879701896397 / 36028797018963968)"
  "round64 0.3 = Fin (5404319552844595 / 18014398509481984)"
  "js_add (js_add (round64 0.1) (round64 0.1)) (round64 0.1)
     = Fin (5404319552844596 / 18014398509481984)"
  by (simp_all add: round64_eval)

text \<open>
  The limits of the format: integers beyond \<open>2^53\<close> round to even, the largest double
  is \<open>2^1024 - 2^971\<close> and the midpoint above it already overflows, the smallest
  positive double is \<open>2^(-1074)\<close> and half of it rounds to zero.
\<close>

lemma round64_range:
  "round64 3 = Fin 3"
  "round64 (- 5) = Fin (- 5)"
  "round64 (2 ^ 53 + 1) = Fin (2 ^ 53)"
  "round64 (2 ^ 53 + 3) = Fin (2 ^ 53 + 4)"
  "round64 (2 ^ 1024) = PosInf"
  "round64 (- (2 ^ 1024)) = NegInf"
  "round64 (2 ^ 1024 - 2 ^ 970) = PosInf"
  "round64 (2 ^ 1024 - 2 ^ 971) = Fin (2 ^ 1024 - 2 ^ 971)"
  "round64 (1 / 2 ^ 1074) = Fin (1 / 2 ^ 1074)"
  "round64 (1 / 2 ^ 1075) = Fin 0"
  "round64 (3 / 2 ^ 1075) = Fin (1 / 2 ^ 1073)"
  by (simp_all add: round64_eval)

lemma round64_zero [simp]: "round64 0 = Fin 0"
  by (simp add: round64_def)

text \<open>Rounding keeps the sign: the rounding of a non-negative real is not negative.\<close>

lemma roundHalfEven_nonneg: "0 \<le> m \<Longrightarrow> 0 \<le> roundHalfEven m"
  by (simp add: roundHalfEven_def nearestEven_def)

lemma round64_nonneg:
  assumes "0 \<le> x" and "round64 x = Fin y"
  shows "0 \<le> y"
proof (cases "x = 0")
  case True
  with assms show ?thesis by simp
next
  case False
  define ulp :: real where "ulp = 2 powi (max (binexp 1100 \<bar>x\<bar>) (- 1022) - 52)"
  have pos: "0 < ulp"
    by (simp add: ulp_def)
  then have "0 \<le> x / ulp"
    using assms(1) by simp
  then have "0 \<le> of_int (roundHalfEven (x / ulp)) * ulp"
    using pos roundHalfEven_nonneg [of "x / ulp"] by simp
  moreover have "y = of_int (roundHalfEven (x / ulp)) * ulp"
    using assms(2) False
    by (simp add: round64_def roundTo_def overflow64_def ulp_def split: if_splits)
  ultimately show ?thesis by simp
qed

section \<open>The gaze classifier\<close>

lemma js_sub_Fin: "js_sub (Fin a) (Fin b) = round64 (a - b)"
  by (simp add: js_sub_def)

lemma js_min_Fin: "js_min (Fin a) (Fin b) = Fin (min a b)"
  by (simp add: js_min_def min_def)

lemma js_max_Fin: "js_max (Fin a) (Fin b) = Fin (max a b)"
  by (simp add: js_max_def max_def)

lemma js_NaN_right:
  "js_add x NaN = NaN" "js_div x NaN = NaN" "js_gt x NaN = False"
  by (cases x; simp)+

text \<open>An absolute value is NaN, infinite or a non-negative number.\<close>

lemma js_abs_cases:
  "js_abs z = NaN \<or> js_abs z = PosInf \<or> (\<exists>r\<ge>0. js_abs z = Fin r)"
  by (cases z) simp_all

text \<open>Such a value divided by zero is \<open>Infinity\<close> when it is positive and NaN otherwise.\<close>

lemma js_abs_div_zero:
  "js_div (js_abs z) (Fin 0) = (if js_gt (js_abs z) (Fin 0) then PosInf else NaN)"
  by (cases z) simp_all

text \<open>
  An eye landmark that is only one point (two numbers) is read out of range at the
  indices 2 and 4: the centre is NaN and the raw sample is false.
\<close>

lemma short_landmark_never_away:
  assumes "length (rightEye f) \<le> 4"
  shows "normalizedRightDistance f = NaN \<and> eyeDistanceRatio f = NaN \<and> \<not> isLookingAway f"
proof -
  have "el (rightEye f) 4 = NaN"
    using assms by (simp add: el_def)
  then have "fst (eyeCenter (rightEye f)) = NaN"
    by (simp add: eyeCenter_def js_NaN_right)
  then have n: "normalizedRightDistance f = NaN"
    by (simp add: normalizedRightDistance_def rightEyeDistance_def js_sub_def)
  then have r: "eyeDistanceRatio f = NaN"
    by (simp add: eyeDistanceRatio_def js_min_def js_max_def)
  show ?thesis
    using n r by (simp add: isLookingAway_def js_lt_def js_NaN_right)
qed

text \<open>The raw samples of the concrete faces, in the code's arithmetic.\<close>

lemmas gaze_defs = isLookingAway_def eyeDistanceRatio_def normalizedRightDistance_def
  normalizedLeftDistance_def rightEyeDistance_def leftEyeDistance_def faceWidth_def
  eyeCenter_def el_def js_sub_def js_lt_def js_min_def js_max_def
  lookingAwayThreshold_def ratioThreshold_def

lemma awayFace_sample: "isLookingAway awayFace"
  by (simp add: awayFace_def gaze_defs round64_eval)

lemma focusedFace_sample: "\<not> isLookingAway focusedFace"
  by (simp add: focusedFace_def gaze_defs round64_eval)

lemma zeroWidthFace_sample: "isLookingAway zeroWidthFace"
  by (simp add: zeroWidthFace_def gaze_defs round64_eval)

lemma ratioBoundaryFace_sample: "isLookingAway ratioBoundaryFace"
  by (simp add: ratioBoundaryFace_def gaze_defs round64_eval)

lemma zeroWidthTenthFace_sample: "isLookingAway zeroWidthTenthFace"
  by (simp add: zeroWidthTenthFace_def gaze_defs round64_eval)

lemma zeroWidthCentredFace_sample: "\<not> isLookingAway zeroWidthCentredFace"
  by (simp add: zeroWidthCentredFace_def gaze_defs round64_eval)

text \<open>A normalised distance that is a finite number is not negative.\<close>

lemma js_abs_div_nonneg:
  assumes "js_div (js_abs u) (js_abs v) = Fin a"
  shows "0 \<le> a"
proof -
  consider "js_abs u = NaN" | "js_abs u = PosInf" | r where "0 \<le> r" "js_abs u = Fin r"
    using js_abs_cases [of u] by blast
  then show ?thesis
  proof cases
    case 1
    with assms show ?thesis by simp
  next
    case 2
    with assms show ?thesis
      using js_abs_cases [of v] by (auto split: if_splits)
  next
    case (3 r)
    consider "js_abs v = NaN" | "js_abs v = PosInf" | w where "0 \<le> w" "js_abs v = Fin w"
      using js_abs_cases [of v] by blast
    then show ?thesis
    proof cases
      case 1
      with 3 assms show ?thesis by simp
    next
      case 2
      with 3 assms show ?thesis by simp
    next
      case (3 w)
      show ?thesis
      proof (cases "w = 0")
        case True
        with 3 \<open>js_abs u = Fin r\<close> assms show ?thesis
          by (simp split: if_splits)
      next
        case False
        with 3 \<open>js_abs u = Fin r\<close> assms have "round64 (r / w) = Fin a"
          by simp
        moreover have "0 \<le> r / w"
          using \<open>0 \<le> r\<close> 3(1) by simp
        ultimately show ?thesis
          by (rule round64_nonneg [rotated])
      qed
    qed
  qed
qed

lemma normalized_nonneg:
  "normalizedRightDistance f = Fin a \<Longrightarrow> 0 \<le> a"
  "normalizedLeftDistance f = Fin b \<Longrightarrow> 0 \<le> b"
  unfolding normalizedRightDistance_def normalizedLeftDistance_def rightEyeDistance_def
    leftEyeDistance_def faceWidth_def
  by (erule js_abs_div_nonneg)+

text \<open>
  Claim C3. For every face, in the binary64 arithmetic of the code: each eye centre
  is the mean of its three points (\<open>x\<close> from the indices 0, 2, 4 and \<open>y\<close> from 1, 3, 5,
  added from left to right and divided by 3), each eye-to-nose horizontal distance is
  divided by the width \<open>|topLeft.x - bottomRight.x|\<close>, the ratio is the smaller
  normalised distance over the larger one, and the raw sample is true iff both
  normalised distances exceed \<^verbatim>\<open>0.12\<close> or the ratio is below \<^verbatim>\<open>0.7\<close>. With finite
  distances and a nonzero width the normalised distances are the rounded quotients;
  with finite normalised distances the ratio is the rounded quotient of their minimum
  by their maximum, or NaN when both are zero, and then the comparison with \<^verbatim>\<open>0.7\<close>
  is false.
\<close>

theorem C3_raw_gaze:
  "eyeCenter (rightEye f)
     = (js_div (js_add (js_add (el (rightEye f) 0) (el (rightEye f) 2)) (el (rightEye f) 4)) (Fin 3),
        js_div (js_add (js_add (el (rightEye f) 1) (el (rightEye f) 3)) (el (rightEye f) 5)) (Fin 3))
   \<and> eyeCenter (leftEye f)
     = (js_div (js_add (js_add (el (leftEye f) 0) (el (leftEye f) 2)) (el (leftEye f) 4)) (Fin 3),
        js_div (js_add (js_add (el (leftEye f) 1) (el (leftEye f) 3)) (el (leftEye f) 5)) (Fin 3))
   \<and> rightEyeDistance f = js_abs (js_sub (fst (eyeCenter (rightEye f))) (el (nose f) 0))
   \<and> leftEyeDistance f = js_abs (js_sub (fst (eyeCenter (leftEye f))) (el (nose f) 0))
   \<and> faceWidth f = js_abs (js_sub (el (topLeft f) 0) (el (bottomRight f) 0))
   \<and> normalizedRightDistance f = js_div (rightEyeDistance f) (faceWidth f)
   \<and> normalizedLeftDistance f = js_div (leftEyeDistance f) (faceWidth f)
   \<and> eyeDistanceRatio f
     = js_div (js_min (normalizedRightDistance f) (normalizedLeftDistance f))
              (js_max (normalizedRightDistance f) (normalizedLeftDistance f))
   \<and> isLookingAway f
     = ((js_gt (normalizedRightDistance f) (round64 0.12)
         \<and> js_gt (normalizedLeftDistance f) (round64 0.12))
        \<or> js_lt (eyeDistanceRatio f) (round64 0.7))
   \<and> (rightEyeDistance f = Fin dr \<and> leftEyeDistance f = Fin dl \<and> faceWidth f = Fin w \<and> w \<noteq> 0 \<longrightarrow>
        normalizedRightDistance f = round64 (dr / w)
        \<and> normalizedLeftDistance f = round64 (dl / w))
   \<and> (normalizedRightDistance f = Fin a \<and> normalizedLeftDistance f = Fin b \<longrightarrow>
        0 \<le> a \<and> 0 \<le> b
        \<and> eyeDistanceRatio f = (if max a b = 0 then NaN else round64 (min a b / max a b))
        \<and> isLookingAway f
          = ((js_gt (Fin a) (round64 0.12) \<and> js_gt (Fin b) (round64 0.12))
             \<or> (max a b \<noteq> 0 \<and> js_lt (round64 (min a b / max a b)) (round64 0.7))))"
proof -
  have A: "eyeCenter (rightEye f)
     = (js_div (js_add (js_add (el (rightEye f) 0) (el (rightEye f) 2)) (el (rightEye f) 4)) (Fin 3),
        js_div (js_add (js_add (el (rightEye f) 1) (el (rightEye f) 3)) (el (rightEye f) 5)) (Fin 3))"
    "eyeCenter (leftEye f)
     = (js_div (js_add (js_add (el (leftEye f) 0) (el (leftEye f) 2)) (el (leftEye f) 4)) (Fin 3),
        js_div (js_add (js_add (el (leftEye f) 1) (el (leftEye f) 3)) (el (leftEye f) 5)) (Fin 3))"
    by (simp_all add: eyeCenter_def)
  have B: "rightEyeDistance f = js_abs (js_sub (fst (eyeCenter (rightEye f))) (el (nose f) 0))"
    "leftEyeDistance f = js_abs (js_sub (fst (eyeCenter (leftEye f))) (el (nose f) 0))"
    "faceWidth f = js_abs (js_sub (el (topLeft f) 0) (el (bottomRight f) 0))"
    "normalizedRightDistance f = js_div (rightEyeDistance f) (faceWidth f)"
    "normalizedLeftDistance f = js_div (leftEyeDistance f) (faceWidth f)"
    by (simp_all only: rightEyeDistance_def leftEyeDistance_def faceWidth_def
          normalizedRightDistance_def normalizedLeftDistance_def)
  have C: "eyeDistanceRatio f
     = js_div (js_min (normalizedRightDistance f) (normalizedLeftDistance f))
              (js_max (normalizedRightDistance f) (normalizedLeftDistance f))"
    by (simp only: eyeDistanceRatio_def)
  have D: "isLookingAway f
     = ((js_gt (normalizedRightDistance f) (round64 0.12)
         \<and> js_gt (normalizedLeftDistance f) (round64 0.12))
        \<or> js_lt (eyeDistanceRatio f) (round64 0.7))"
    by (simp only: isLookingAway_def lookingAwayThreshold_def ratioThreshold_def)
  have E: "rightEyeDistance f = Fin dr \<and> leftEyeDistance f = Fin dl \<and> faceWidth f = Fin w \<and> w \<noteq> 0 \<longrightarrow>
        normalizedRightDistance f = round64 (dr / w)
        \<and> normalizedLeftDistance f = round64 (dl / w)"
    by (simp add: B(4,5))
  have F: "normalizedRightDistance f = Fin a \<and> normalizedLeftDistance f = Fin b \<longrightarrow>
        0 \<le> a \<and> 0 \<le> b
        \<and> eyeDistanceRatio f = (if max a b = 0 then NaN else round64 (min a b / max a b))
        \<and> isLookingAway f
          = ((js_gt (Fin a) (round64 0.12) \<and> js_gt (Fin b) (round64 0.12))
             \<or> (max a b \<noteq> 0 \<and> js_lt (round64 (min a b / max a b)) (round64 0.7)))"
  proof (intro impI, elim conjE)
    assume a: "normalizedRightDistance f = Fin a" and b: "normalizedLeftDistance f = Fin b"
    have nn: "0 \<le> a" "0 \<le> b"
      using a b by (simp_all add: normalized_nonneg)
    then have z: "max a b = 0 \<Longrightarrow> min a b = 0"
      by (simp add: max_def min_def split: if_splits)
    have r: "eyeDistanceRatio f = (if max a b = 0 then NaN else round64 (min a b / max a b))"
      unfolding C a b js_min_Fin js_max_Fin using z by simp
    have "isLookingAway f
          = ((js_gt (Fin a) (round64 0.12) \<and> js_gt (Fin b) (round64 0.12))
             \<or> (max a b \<noteq> 0 \<and> js_lt (round64 (min a b / max a b)) (round64 0.7)))"
      unfolding D r a b by (simp add: js_lt_def js_NaN_right)
    with nn r show "0 \<le> a \<and> 0 \<le> b
        \<and> eyeDistanceRatio f = (if max a b = 0 then NaN else round64 (min a b / max a b))
        \<and> isLookingAway f
          = ((js_gt (Fin a) (round64 0.12) \<and> js_gt (Fin b) (round64 0.12))
             \<or> (max a b \<noteq> 0 \<and> js_lt (round64 (min a b / max a b)) (round64 0.7)))"
      by blast
  qed
  show ?thesis
    using A B C D E F by blast
qed

text \<open>
  The face with distances 7 and 10 in a box of width 147: the normalised distances
  are the doubles printed as \<^verbatim>\<open>0.047619047619047616\<close> and \<^verbatim>\<open>0.06802721088435375\<close>,
  their quotient rounds to \<^verbatim>\<open>0.6999999999999998\<close>, one unit in the last place below
  the double \<^verbatim>\<open>0.7\<close>, and the raw sample is true; in exact arithmetic the ratio
  would be \<open>7/10\<close> and the sample false.
\<close>

theorem C3_raw_gaze_witness:
  "rightEyeDistance ratioBoundaryFace = Fin 7 \<and> leftEyeDistance ratioBoundaryFace = Fin 10
   \<and> faceWidth ratioBoundaryFace = Fin 147 \<and> (147::real) \<noteq> 0
   \<and> normalizedRightDistance ratioBoundaryFace = Fin (857828500451523 / 18014398509481984)
   \<and> normalizedLeftDistance ratioBoundaryFace = Fin (4901877145437275 / 72057594037927936)
   \<and> eyeDistanceRatio ratioBoundaryFace = Fin (6305039478318693 / 9007199254740992)
   \<and> round64 0.7 = Fin (6305039478318694 / 9007199254740992)
   \<and> isLookingAway ratioBoundaryFace"
proof -
  have d: "rightEyeDistance ratioBoundaryFace = Fin 7" "leftEyeDistance ratioBoundaryFace = Fin 10"
    "faceWidth ratioBoundaryFace = Fin 147"
    by (simp_all add: ratioBoundaryFace_def rightEyeDistance_def leftEyeDistance_def faceWidth_def
          eyeCenter_def el_def js_sub_def round64_eval)
  have q: "round64 (7 / 147) = Fin (857828500451523 / 18014398509481984)"
    "round64 (10 / 147) = Fin (4901877145437275 / 72057594037927936)"
    by (simp_all add: round64_eval)
  have r: "round64 (min (857828500451523 / 18014398509481984) (4901877145437275 / 72057594037927936)
                    / max (857828500451523 / 18014398509481984) (4901877145437275 / 72057594037927936))
             = Fin (6305039478318693 / 9007199254740992)"
    by (simp add: round64_eval)
  have t: "round64 0.7 = Fin (6305039478318694 / 9007199254740992)"
    by (simp add: round64_eval)
  note c = C3_raw_gaze [of ratioBoundaryFace 7 10 147
                     "857828500451523 / 18014398509481984" "4901877145437275 / 72057594037927936"]
  have E: "rightEyeDistance ratioBoundaryFace = Fin 7 \<and> leftEyeDistance ratioBoundaryFace = Fin 10
            \<and> faceWidth ratioBoundaryFace = Fin 147 \<and> (147::real) \<noteq> 0 \<longrightarrow>
           normalizedRightDistance ratioBoundaryFace = round64 (7 / 147)
           \<and> normalizedLeftDistance ratioBoundaryFace = round64 (10 / 147)"
    using c by blast
  have n: "normalizedRightDistance ratioBoundaryFace = Fin (857828500451523 / 18014398509481984)"
    "normalizedLeftDistance ratioBoundaryFace = Fin (4901877145437275 / 72057594037927936)"
    using E d q by simp_all
  have F: "normalizedRightDistance ratioBoundaryFace = Fin (857828500451523 / 18014398509481984)
            \<and> normalizedLeftDistance ratioBoundaryFace = Fin (4901877145437275 / 72057594037927936) \<longrightarrow>
           eyeDistanceRatio ratioBoundaryFace
             = (if max (857828500451523 / 18014398509481984) (4901877145437275 / 72057594037927936)
                     = (0::real)
                then NaN
                else round64 (min (857828500451523 / 18014398509481984)
                                  (4901877145437275 / 72057594037927936)
                              / max (857828500451523 / 18014398509481984)
                                    (4901877145437275 / 72057594037927936)))"
    using c by blast
  have e: "eyeDistanceRatio ratioBoundaryFace = Fin (6305039478318693 / 9007199254740992)"
    using F n r by simp
  show ?thesis
    using d n e t ratioBoundaryFace_sample by simp
qed

text \<open>
  Claim C7, as amended. The classifier has no guard for a bounding box of width zero:
  both eye-to-nose distances are divided by zero, which raises nothing and yields
  \<open>Infinity\<close> for a distance greater than zero and NaN for a distance that is zero
  or NaN; the ratio is NaN. The raw sample of such a frame is true iff both
  distances, as the code computes them, are greater than zero.
\<close>

theorem C7_zero_width_unguarded:
  assumes "el (topLeft f) 0 = Fin x" and "el (bottomRight f) 0 = Fin x"
  shows "faceWidth f = Fin 0
       \<and> normalizedRightDistance f = (if js_gt (rightEyeDistance f) (Fin 0) then PosInf else NaN)
       \<and> normalizedLeftDistance f = (if js_gt (leftEyeDistance f) (Fin 0) then PosInf else NaN)
       \<and> eyeDistanceRatio f = NaN
       \<and> isLookingAway f = (js_gt (rightEyeDistance f) (Fin 0) \<and> js_gt (leftEyeDistance f) (Fin 0))"
proof -
  have w: "faceWidth f = Fin 0"
    using assms by (simp add: faceWidth_def js_sub_Fin)
  have nR: "normalizedRightDistance f = (if js_gt (rightEyeDistance f) (Fin 0) then PosInf else NaN)"
    unfolding normalizedRightDistance_def w rightEyeDistance_def by (rule js_abs_div_zero)
  have nL: "normalizedLeftDistance f = (if js_gt (leftEyeDistance f) (Fin 0) then PosInf else NaN)"
    unfolding normalizedLeftDistance_def w leftEyeDistance_def by (rule js_abs_div_zero)
  have ratio: "eyeDistanceRatio f = NaN"
    unfolding eyeDistanceRatio_def nR nL by (simp add: js_min_def js_max_def)
  have thr: "js_gt PosInf (round64 0.12)"
    by (simp add: round64_eval)
  have away: "isLookingAway f = (js_gt (rightEyeDistance f) (Fin 0) \<and> js_gt (leftEyeDistance f) (Fin 0))"
    unfolding isLookingAway_def nR nL ratio lookingAwayThreshold_def
    using thr by (simp add: js_lt_def js_NaN_right)
  show ?thesis
    using w nR nL ratio away by blast
qed

text \<open>
  Three faces with a box of width zero. Eyes 30 pixels from the nose: distances 30,
  sample true. Eye points and nose all at \<^verbatim>\<open>0.1\<close>: the centre
  \<^verbatim>\<open>(0.1 + 0.1 + 0.1) / 3\<close> is \<^verbatim>\<open>0.10000000000000002\<close>, the distance is not zero and
  the sample is true. Eye points and nose all at 50: the distance is zero and the
  sample is false.
\<close>

theorem C7_zero_width_unguarded_witness:
  "el (topLeft zeroWidthFace) 0 = Fin 50 \<and> el (bottomRight zeroWidthFace) 0 = Fin 50
   \<and> normalizedRightDistance zeroWidthFace = PosInf
   \<and> isLookingAway zeroWidthFace
   \<and> el (topLeft zeroWidthTenthFace) 0 = Fin 50 \<and> el (bottomRight zeroWidthTenthFace) 0 = Fin 50
   \<and> fst (eyeCenter (rightEye zeroWidthTenthFace)) = Fin (7205759403792795 / 72057594037927936)
   \<and> rightEyeDistance zeroWidthTenthFace = Fin (1 / 72057594037927936)
   \<and> isLookingAway zeroWidthTenthFace
   \<and> el (topLeft zeroWidthCentredFace) 0 = Fin 50 \<and> el (bottomRight zeroWidthCentredFace) 0 = Fin 50
   \<and> rightEyeDistance zeroWidthCentredFace = Fin 0
   \<and> \<not> isLookingAway zeroWidthCentredFace"
proof -
  have h: "el (topLeft zeroWidthFace) 0 = Fin 50" "el (bottomRight zeroWidthFace) 0 = Fin 50"
    "el (topLeft zeroWidthTenthFace) 0 = Fin 50" "el (bottomRight zeroWidthTenthFace) 0 = Fin 50"
    "el (topLeft zeroWidthCentredFace) 0 = Fin 50" "el (bottomRight zeroWidthCentredFace) 0 = Fin 50"
    by (simp_all add: zeroWidthFace_def zeroWidthTenthFace_def zeroWidthCentredFace_def el_def)
  have d: "rightEyeDistance zeroWidthFace = Fin 30" "leftEyeDistance zeroWidthFace = Fin 30"
    "fst (eyeCenter (rightEye zeroWidthTenthFace)) = Fin (7205759403792795 / 72057594037927936)"
    "rightEyeDistance zeroWidthTenthFace = Fin (1 / 72057594037927936)"
    "leftEyeDistance zeroWidthTenthFace = Fin (1 / 72057594037927936)"
    "rightEyeDistance zeroWidthCentredFace = Fin 0"
    by (simp_all add: zeroWidthFace_def zeroWidthTenthFace_def zeroWidthCentredFace_def
          rightEyeDistance_def leftEyeDistance_def eyeCenter_def el_def js_sub_def round64_eval)
  show ?thesis
    using h d C7_zero_width_unguarded [OF h(1,2)] C7_zero_width_unguarded [OF h(3,4)]
      C7_zero_width_unguarded [OF h(5,6)]
    by simp
qed

text \<open>
  Against claim C7 as stated: a face whose bounding box has width zero and whose
  eyes are 30 pixels from the nose is classified as looking away, and that sample
  enters the history.
\<close>

theorem C7_zero_width_counterexample:
  "el (topLeft zeroWidthFace) 0 = el (bottomRight zeroWidthFace) 0
   \<and> faceWidth zeroWidthFace = Fin 0
   \<and> isLookingAway zeroWidthFace
   \<and> gazeDirectionHistory (snd (checkGazeDirection zeroWidthFace 0 ''10:00:00'' initial_session)) = [True]"
proof -
  have "el (topLeft zeroWidthFace) 0 = el (bottomRight zeroWidthFace) 0"
    "faceWidth zeroWidthFace = Fin 0"
    by (simp_all add: zeroWidthFace_def faceWidth_def el_def js_sub_def)
  moreover have "gazeDirectionHistory
      (snd (checkGazeDirection zeroWidthFace 0 ''10:00:00'' initial_session)) = [True]"
    by (simp add: checkGazeDirection_def gazeStep_def Let_def logEvent_def zeroWidthFace_sample
          pushGaze_def initial_session_def GAZE_HISTORY_LENGTH_def split: option.splits)
  ultimately show ?thesis
    using zeroWidthFace_sample by blast
qed

section \<open>What each operation does to the counters\<close>

lemma logEvent_fields [simp]:
  "lookAwayCount (logEvent m t ts st) = lookAwayCount st"
  "noFaceCount (logEvent m t ts st) = noFaceCount st"
  "multipleFacesCount (logEvent m t ts st) = multipleFacesCount st"
  "phoneCount (logEvent m t ts st) = phoneCount st"
  "bookCount (logEvent m t ts st) = bookCount st"
  "deviceCount (logEvent m t ts st) = deviceCount st"
  "gazeDirectionHistory (logEvent m t ts st) = gazeDirectionHistory st"
  "lookingAwayStartTime (logEvent m t ts st) = lookingAwayStartTime st"
  "noFaceStartTime (logEvent m t ts st) = noFaceStartTime st"
  "isInterviewRunning (logEvent m t ts st) = isInterviewRunning st"
  "startTime (logEvent m t ts st) = startTime st"
  by (simp_all add: logEvent_def)

text \<open>The gaze step leaves five counters alone and raises \<open>lookAwayCount\<close> by at most one.\<close>

lemma gazeStep_counters:
  "noFaceCount (snd (gazeStep raw now ts st)) = noFaceCount st"
  "multipleFacesCount (snd (gazeStep raw now ts st)) = multipleFacesCount st"
  "phoneCount (snd (gazeStep raw now ts st)) = phoneCount st"
  "bookCount (snd (gazeStep raw now ts st)) = bookCount st"
  "deviceCount (snd (gazeStep raw now ts st)) = deviceCount st"
  "lookAwayCount st \<le> lookAwayCount (snd (gazeStep raw now ts st))"
  "noFaceStartTime (snd (gazeStep raw now ts st)) = noFaceStartTime st"
  by (simp_all add: gazeStep_def Let_def split: option.splits)

lemma forEachFace_counters:
  "noFaceCount (snd (forEachFace fs now ts (flag, st))) = noFaceCount st
   \<and> multipleFacesCount (snd (forEachFace fs now ts (flag, st))) = multipleFacesCount st
   \<and> phoneCount (snd (forEachFace fs now ts (flag, st))) = phoneCount st
   \<and> bookCount (snd (forEachFace fs now ts (flag, st))) = bookCount st
   \<and> deviceCount (snd (forEachFace fs now ts (flag, st))) = deviceCount st
   \<and> lookAwayCount st \<le> lookAwayCount (snd (forEachFace fs now ts (flag, st)))
   \<and> noFaceStartTime (snd (forEachFace fs now ts (flag, st))) = noFaceStartTime st"
proof (induction fs arbitrary: flag st)
  case Nil
  show ?case by simp
next
  case (Cons f fs)
  obtain r st' where g: "gazeStep (isLookingAway f) now ts st = (r, st')"
    by (cases "gazeStep (isLookingAway f) now ts st")
  have st': "st' = snd (gazeStep (isLookingAway f) now ts st)"
    using g by simp
  have step: "forEachFace (f # fs) now ts (flag, st) = forEachFace fs now ts (if r then True else flag, st')"
    by (simp add: checkGazeDirection_def g)
  have "lookAwayCount st \<le> lookAwayCount st'"
    unfolding st' by (rule gazeStep_counters)
  moreover have "lookAwayCount st' \<le> lookAwayCount (snd (forEachFace fs now ts (if r then True else flag, st')))"
    using Cons.IH [of "if r then True else flag" st'] by simp
  ultimately have la: "lookAwayCount st \<le> lookAwayCount (snd (forEachFace (f # fs) now ts (flag, st)))"
    unfolding step by (rule order_trans)
  show ?case
    using Cons.IH [of "if r then True else flag" st'] la
    unfolding step by (simp add: st' gazeStep_counters)
qed

lemma handleNoFaceDetected_counters:
  "lookAwayCount (handleNoFaceDetected now ts st) = lookAwayCount st"
  "multipleFacesCount (handleNoFaceDetected now ts st) = multipleFacesCount st"
  "phoneCount (handleNoFaceDetected now ts st) = phoneCount st"
  "bookCount (handleNoFaceDetected now ts st) = bookCount st"
  "deviceCount (handleNoFaceDetected now ts st) = deviceCount st"
  "noFaceCount st \<le> noFaceCount (handleNoFaceDetected now ts st)"
  "noFaceCount (handleNoFaceDetected now ts st) \<le> max 1 (noFaceCount st)"
  by (simp_all add: handleNoFaceDetected_def Let_def split: option.splits)

lemma processFace_counters:
  "phoneCount (processFaceDetectionResults faces now ts st) = phoneCount st
   \<and> bookCount (processFaceDetectionResults faces now ts st) = bookCount st
   \<and> deviceCount (processFaceDetectionResults faces now ts st) = deviceCount st
   \<and> lookAwayCount st \<le> lookAwayCount (processFaceDetectionResults faces now ts st)
   \<and> noFaceCount st \<le> noFaceCount (processFaceDetectionResults faces now ts st)
   \<and> noFaceCount (processFaceDetectionResults faces now ts st) \<le> max 1 (noFaceCount st)
   \<and> multipleFacesCount st \<le> multipleFacesCount (processFaceDetectionResults faces now ts st)
   \<and> multipleFacesCount (processFaceDetectionResults faces now ts st) \<le> max 1 (multipleFacesCount st)"
proof (cases "length faces = 0")
  case True
  then show ?thesis
    using handleNoFaceDetected_counters(6,7)
            [where st = "st\<lparr>gazeDirectionHistory := [], focusIndicator := NoFaceShown\<rparr>"
               and now = now and ts = ts]
    by (simp add: processFaceDetectionResults_def handleNoFaceDetected_counters(1-5))
next
  case False
  define st1 where "st1 = st\<lparr>lastFaceDetectedTime := Some now\<rparr>"
  define st2 where "st2 = (if noFaceStartTime st1 \<noteq> None
                    then logEvent FaceDetectedAgain Success ts (st1\<lparr>noFaceStartTime := None\<rparr>)
                    else st1)"
  define st3 where "st3 = (if length faces > 1 \<and> multipleFacesCount st2 = 0
                    then logEvent (MultipleFacesDetected (length faces)) Error ts
                           (st2\<lparr>multipleFacesCount := multipleFacesCount st2 + 1\<rparr>)
                    else st2)"
  obtain flag st4 where fe: "forEachFace faces now ts (False, st3) = (flag, st4)"
    by (cases "forEachFace faces now ts (False, st3)")
  have "processFaceDetectionResults faces now ts st
          = (case forEachFace faces now ts (False, st3) of
               (flag, st4) \<Rightarrow>
                 st4\<lparr>focusIndicator := (if flag then LookingAwayShown else CandidateFocused)\<rparr>)"
    using False by (simp add: processFaceDetectionResults_def Let_def st1_def st2_def st3_def)
  then have res: "processFaceDetectionResults faces now ts st
               = st4\<lparr>focusIndicator := (if flag then LookingAwayShown else CandidateFocused)\<rparr>"
    by (simp only: fe prod.case)
  have st4: "st4 = snd (forEachFace faces now ts (False, st3))"
    using fe by simp
  have c2: "phoneCount st2 = phoneCount st" "bookCount st2 = bookCount st"
    "deviceCount st2 = deviceCount st" "lookAwayCount st2 = lookAwayCount st"
    "noFaceCount st2 = noFaceCount st" "multipleFacesCount st2 = multipleFacesCount st"
    by (simp_all add: st2_def st1_def)
  have c3: "phoneCount st3 = phoneCount st" "bookCount st3 = bookCount st"
    "deviceCount st3 = deviceCount st" "lookAwayCount st3 = lookAwayCount st"
    "noFaceCount st3 = noFaceCount st"
    "multipleFacesCount st \<le> multipleFacesCount st3"
    "multipleFacesCount st3 \<le> max 1 (multipleFacesCount st)"
    by (simp_all add: st3_def c2)
  show ?thesis
    unfolding res using forEachFace_counters [of faces now ts False st3] c3
    by (simp add: st4)
qed

lemma handleProhibited_counters:
  "lookAwayCount (handleProhibitedItemDetection item ts st) = lookAwayCount st"
  "noFaceCount (handleProhibitedItemDetection item ts st) = noFaceCount st"
  "multipleFacesCount (handleProhibitedItemDetection item ts st) = multipleFacesCount st"
  "phoneCount (handleProhibitedItemDetection item ts st) =
     phoneCount st + (if dclass item = ''cell phone'' then 1 else 0)"
  "bookCount (handleProhibitedItemDetection item ts st) =
     bookCount st + (if dclass item = ''book'' then 1 else 0)"
  "deviceCount (handleProhibitedItemDetection item ts st) =
     deviceCount st + (if dclass item \<in> {''laptop'', ''keyboard'', ''mouse'', ''remote''} then 1 else 0)"
  by (auto simp add: handleProhibitedItemDetection_def)

lemma foldl_handleProhibited:
  "lookAwayCount (foldl (\<lambda>s item. handleProhibitedItemDetection item ts s) st items) = lookAwayCount st
   \<and> noFaceCount (foldl (\<lambda>s item. handleProhibitedItemDetection item ts s) st items) = noFaceCount st
   \<and> multipleFacesCount (foldl (\<lambda>s item. handleProhibitedItemDetection item ts s) st items)
       = multipleFacesCount st
   \<and> phoneCount (foldl (\<lambda>s item. handleProhibitedItemDetection item ts s) st items)
       = phoneCount st + length (filter (\<lambda>p. dclass p = ''cell phone'') items)
   \<and> bookCount (foldl (\<lambda>s item. handleProhibitedItemDetection item ts s) st items)
       = bookCount st + length (filter (\<lambda>p. dclass p = ''book'') items)
   \<and> deviceCount (foldl (\<lambda>s item. handleProhibitedItemDetection item ts s) st items)
       = deviceCount st
         + length (filter (\<lambda>p. dclass p \<in> {''laptop'', ''keyboard'', ''mouse'', ''remote''}) items)"
proof (induction items arbitrary: st)
  case Nil
  show ?case by simp
next
  case (Cons p items)
  show ?case
    using Cons.IH [of "handleProhibitedItemDetection p ts st"]
    by (simp add: handleProhibited_counters)
qed

lemma isProhibited_iff:
  "isProhibited p =
     (dclass p \<in> {''cell phone'', ''book'', ''laptop'', ''keyboard'', ''mouse'', ''remote''}
      \<and> score p > 0.6)"
  by (simp add: isProhibited_def PROHIBITED_ITEMS_def)

lemma processObject_counters:
  "lookAwayCount (processObjectDetectionResults preds ts st) = lookAwayCount st
   \<and> noFaceCount (processObjectDetectionResults preds ts st) = noFaceCount st
   \<and> multipleFacesCount (processObjectDetectionResults preds ts st) = multipleFacesCount st
   \<and> phoneCount (processObjectDetectionResults preds ts st)
       = phoneCount st + length (filter (\<lambda>p. dclass p = ''cell phone'' \<and> score p > 0.6) preds)
   \<and> bookCount (processObjectDetectionResults preds ts st)
       = bookCount st + length (filter (\<lambda>p. dclass p = ''book'' \<and> score p > 0.6) preds)
   \<and> deviceCount (processObjectDetectionResults preds ts st)
       = deviceCount st
         + length (filter (\<lambda>p. dclass p \<in> {''laptop'', ''keyboard'', ''mouse'', ''remote''}
                               \<and> score p > 0.6) preds)"
proof -
  have a: "filter (\<lambda>p. dclass p = ''cell phone'') (filter isProhibited preds)
             = filter (\<lambda>p. dclass p = ''cell phone'' \<and> score p > 0.6) preds"
    unfolding filter_filter by (rule filter_cong) (auto simp: isProhibited_iff)
  have b: "filter (\<lambda>p. dclass p = ''book'') (filter isProhibited preds)
             = filter (\<lambda>p. dclass p = ''book'' \<and> score p > 0.6) preds"
    unfolding filter_filter by (rule filter_cong) (auto simp: isProhibited_iff)
  have c: "filter (\<lambda>p. dclass p \<in> {''laptop'', ''keyboard'', ''mouse'', ''remote''})
             (filter isProhibited preds)
             = filter (\<lambda>p. dclass p \<in> {''laptop'', ''keyboard'', ''mouse'', ''remote''}
                            \<and> score p > 0.6) preds"
    unfolding filter_filter by (rule filter_cong) (auto simp: isProhibited_iff)
  show ?thesis
    unfolding processObjectDetectionResults_def
    using foldl_handleProhibited [of ts st "filter isProhibited preds"]
    by (simp only: a b c)
qed

section \<open>The object violation tracker\<close>

lemma prohibited_classes_partition:
  "length (filter (\<lambda>p. dclass p = ''cell phone'' \<and> score p > 0.6) preds)
   + length (filter (\<lambda>p. dclass p = ''book'' \<and> score p > 0.6) preds)
   + length (filter (\<lambda>p. dclass p \<in> {''laptop'', ''keyboard'', ''mouse'', ''remote''}
                           \<and> score p > 0.6) preds)
   = length (filter isProhibited preds)"
  by (induction preds) (auto simp add: isProhibited_iff)

text \<open>
  Claim C6. For every list of detections processed in one tick, a detection counts
  iff its class is one of cell phone, book, laptop, keyboard, mouse, remote and its
  confidence is strictly above 0.6; every such detection raises exactly one counter
  by one (cell phone: \<open>phoneCount\<close>; book: \<open>bookCount\<close>; the other four:
  \<open>deviceCount\<close>), with no cap, debouncing or cool-down, and the three focus counters
  are untouched.
\<close>

theorem C6_object_counters:
  "isProhibited p =
     (dclass p \<in> {''cell phone'', ''book'', ''laptop'', ''keyboard'', ''mouse'', ''remote''}
      \<and> score p > 0.6)
   \<and> phoneCount (processObjectDetectionResults preds ts st)
       = phoneCount st + length (filter (\<lambda>p. dclass p = ''cell phone'' \<and> score p > 0.6) preds)
   \<and> bookCount (processObjectDetectionResults preds ts st)
       = bookCount st + length (filter (\<lambda>p. dclass p = ''book'' \<and> score p > 0.6) preds)
   \<and> deviceCount (processObjectDetectionResults preds ts st)
       = deviceCount st
         + length (filter (\<lambda>p. dclass p \<in> {''laptop'', ''keyboard'', ''mouse'', ''remote''}
                               \<and> score p > 0.6) preds)
   \<and> phoneCount (processObjectDetectionResults preds ts st)
       + bookCount (processObjectDetectionResults preds ts st)
       + deviceCount (processObjectDetectionResults preds ts st)
       = phoneCount st + bookCount st + deviceCount st + length (filter isProhibited preds)
   \<and> lookAwayCount (processObjectDetectionResults preds ts st) = lookAwayCount st
   \<and> noFaceCount (processObjectDetectionResults preds ts st) = noFaceCount st
   \<and> multipleFacesCount (processObjectDetectionResults preds ts st) = multipleFacesCount st"
proof -
  note c = processObject_counters [of preds ts st]
  have total: "phoneCount (processObjectDetectionResults preds ts st)
       + bookCount (processObjectDetectionResults preds ts st)
       + deviceCount (processObjectDetectionResults preds ts st)
       = phoneCount st + bookCount st + deviceCount st + length (filter isProhibited preds)"
    using c prohibited_classes_partition [of preds] by linarith
  show ?thesis
    using c total isProhibited_iff [of p] by blast
qed

text \<open>
  A phone at confidence 0.59 or exactly 0.6 is ignored, one at 0.61 counts; the same
  phone seen twice in one tick counts twice; a person is never counted.
\<close>

theorem C6_object_counters_witness:
  "phoneCount (processObjectDetectionResults
      [\<lparr>dclass = ''cell phone'', score = 0.59\<rparr>, \<lparr>dclass = ''cell phone'', score = 0.6\<rparr>]
      ''10:00:00'' initial_session) = 0
   \<and> phoneCount (processObjectDetectionResults
      [\<lparr>dclass = ''cell phone'', score = 0.61\<rparr>, \<lparr>dclass = ''cell phone'', score = 0.61\<rparr>,
       \<lparr>dclass = ''person'', score = 0.99\<rparr>, \<lparr>dclass = ''mouse'', score = 0.7\<rparr>]
      ''10:00:00'' initial_session) = 2
   \<and> deviceCount (processObjectDetectionResults
      [\<lparr>dclass = ''cell phone'', score = 0.61\<rparr>, \<lparr>dclass = ''cell phone'', score = 0.61\<rparr>,
       \<lparr>dclass = ''person'', score = 0.99\<rparr>, \<lparr>dclass = ''mouse'', score = 0.7\<rparr>]
      ''10:00:00'' initial_session) = 1"
  using C6_object_counters
          [of "\<lparr>dclass = ''cell phone'', score = 0.59\<rparr>"
              "[\<lparr>dclass = ''cell phone'', score = 0.59\<rparr>, \<lparr>dclass = ''cell phone'', score = 0.6\<rparr>]"
              "''10:00:00''" initial_session]
        C6_object_counters
          [of "\<lparr>dclass = ''cell phone'', score = 0.61\<rparr>"
              "[\<lparr>dclass = ''cell phone'', score = 0.61\<rparr>, \<lparr>dclass = ''cell phone'', score = 0.61\<rparr>,
                \<lparr>dclass = ''person'', score = 0.99\<rparr>, \<lparr>dclass = ''mouse'', score = 0.7\<rparr>]"
              "''10:00:00''" initial_session]
  by (simp add: initial_session_def)

section \<open>Monotonicity of the counters\<close>

lemma step_counters:
  "lookAwayCount st \<le> lookAwayCount (step st op)
   \<and> noFaceCount st \<le> noFaceCount (step st op)
   \<and> multipleFacesCount st \<le> multipleFacesCount (step st op)
   \<and> phoneCount st \<le> phoneCount (step st op)
   \<and> bookCount st \<le> bookCount (step st op)
   \<and> deviceCount st \<le> deviceCount (step st op)"
proof (cases op)
  case (StartInterview camera recorder now ts)
  then show ?thesis by (simp add: startInterview_def Let_def)
next
  case (StopInterview ts)
  then show ?thesis by (simp add: stopInterview_def)
next
  case (FaceTick r now ts)
  show ?thesis
  proof (cases r)
    case None
    with FaceTick show ?thesis by (simp add: faceDetectionTick_def)
  next
    case (Some faces)
    with FaceTick show ?thesis
      using processFace_counters [of faces now ts st] by (simp add: faceDetectionTick_def)
  qed
next
  case (ObjectTick r ts)
  show ?thesis
  proof (cases r)
    case None
    with ObjectTick show ?thesis by (simp add: objectDetectionTick_def)
  next
    case (Some preds)
    with ObjectTick show ?thesis
      using processObject_counters [of preds ts st] by (simp add: objectDetectionTick_def)
  qed
next
  case (DownloadReport ok pdf ts)
  then show ?thesis by (simp add: downloadReport_def generatePDFReport_def Let_def)
qed

lemma run_snoc: "run st (ops @ [op]) = step (run st ops) op"
  by (simp add: run_def)

lemma run_append: "run st (ops @ later) = run (run st ops) later"
  by (simp add: run_def)

lemma run_counters:
  "lookAwayCount st \<le> lookAwayCount (run st ops)
   \<and> noFaceCount st \<le> noFaceCount (run st ops)
   \<and> multipleFacesCount st \<le> multipleFacesCount (run st ops)
   \<and> phoneCount st \<le> phoneCount (run st ops)
   \<and> bookCount st \<le> bookCount (run st ops)
   \<and> deviceCount st \<le> deviceCount (run st ops)"
proof (induction ops rule: rev_induct)
  case Nil
  show ?case by (simp add: run_def)
next
  case (snoc op ops)
  show ?case
    using snoc.IH step_counters [of "run st ops" op]
    unfolding run_snoc by (meson order_trans)
qed

lemma integrityScore_antimono:
  assumes "lookAwayCount st \<le> lookAwayCount st'" "noFaceCount st \<le> noFaceCount st'"
    "multipleFacesCount st \<le> multipleFacesCount st'" "phoneCount st \<le> phoneCount st'"
    "bookCount st \<le> bookCount st'" "deviceCount st \<le> deviceCount st'"
  shows "integrityScore st' \<le> integrityScore st"
proof -
  have "deductions st \<le> deductions st'"
    using assms unfolding deductions_def by linarith
  then show ?thesis
    by (simp add: integrityScore_def)
qed

text \<open>
  Claim C9. Across every operation of a session (starting, stopping, a face tick, an
  object tick, a failed tick, exporting the report) each of the six counters is
  non-decreasing, and so the integrity score is non-increasing as the session
  progresses. No operation resets a counter, starting the interview included.
\<close>

theorem C9_counters_monotone:
  "lookAwayCount st \<le> lookAwayCount (run st ops)
   \<and> noFaceCount st \<le> noFaceCount (run st ops)
   \<and> multipleFacesCount st \<le> multipleFacesCount (run st ops)
   \<and> phoneCount st \<le> phoneCount (run st ops)
   \<and> bookCount st \<le> bookCount (run st ops)
   \<and> deviceCount st \<le> deviceCount (run st ops)
   \<and> integrityScore (run st ops) \<le> integrityScore st
   \<and> integrityScore (step st op) \<le> integrityScore st
   \<and> integrityScore (run initial_session (ops @ later)) \<le> integrityScore (run initial_session ops)"
proof -
  note r = run_counters [of st ops]
  have a: "integrityScore (run st ops) \<le> integrityScore st"
    using r by (intro integrityScore_antimono) simp_all
  have b: "integrityScore (step st op) \<le> integrityScore st"
    using step_counters [of st op] by (intro integrityScore_antimono) simp_all
  have c: "integrityScore (run initial_session (ops @ later)) \<le> integrityScore (run initial_session ops)"
    unfolding run_append
    using run_counters [of "run initial_session ops" later] by (intro integrityScore_antimono) simp_all
  show ?thesis
    using r a b c by blast
qed

text \<open>
  A session in which a phone is seen once, the interview is stopped and started
  again: the second start keeps the count, and the score stays at 90.
\<close>

theorem C9_counters_monotone_witness:
  "phoneCount (run initial_session
       [StartInterview True True 0 ''10:00:00'',
        ObjectTick (Some [\<lparr>dclass = ''cell phone'', score = 0.9\<rparr>]) ''10:00:01'']) = 1
   \<and> phoneCount (run initial_session
       ([StartInterview True True 0 ''10:00:00'',
         ObjectTick (Some [\<lparr>dclass = ''cell phone'', score = 0.9\<rparr>]) ''10:00:01'']
        @ [StopInterview ''10:00:02'', StartInterview True True 5000 ''10:00:05''])) = 1
   \<and> integrityScore (run initial_session
       ([StartInterview True True 0 ''10:00:00'',
         ObjectTick (Some [\<lparr>dclass = ''cell phone'', score = 0.9\<rparr>]) ''10:00:01'']
        @ [StopInterview ''10:00:02'', StartInterview True True 5000 ''10:00:05''])) = 90"
  using C9_counters_monotone
          [of initial_session
              "[StartInterview True True 0 ''10:00:00'',
                ObjectTick (Some [\<lparr>dclass = ''cell phone'', score = 0.9\<rparr>]) ''10:00:01'']"
              "StopInterview ''10:00:02''"
              "[StopInterview ''10:00:02'', StartInterview True True 5000 ''10:00:05'']"]
  by (simp add: run_def initial_session_def startInterview_def stopInterview_def
        objectDetectionTick_def processObjectDetectionResults_def isProhibited_def
        PROHIBITED_ITEMS_def handleProhibitedItemDetection_def logEvent_def Let_def
        integrityScore_def deductions_def)

section \<open>Frames with faces\<close>

text \<open>
  A frame with at least one face, unfolded: the state \<open>st3\<close> that enters the loop over
  the faces, and the result of the loop with the focus indicator set from its flag.
\<close>

lemma processFace_nonempty:
  assumes ne: "faces \<noteq> []"
  shows "\<exists>st3. processFaceDetectionResults faces now ts st
           = (snd (forEachFace faces now ts (False, st3)))
               \<lparr>focusIndicator := (if fst (forEachFace faces now ts (False, st3))
                                    then LookingAwayShown else CandidateFocused)\<rparr>
         \<and> gazeDirectionHistory st3 = gazeDirectionHistory st
         \<and> lookingAwayStartTime st3 = lookingAwayStartTime st
         \<and> lookAwayCount st3 = lookAwayCount st
         \<and> noFaceCount st3 = noFaceCount st
         \<and> multipleFacesCount st3
             = (if length faces > 1 \<and> multipleFacesCount st = 0 then 1 else multipleFacesCount st)"
proof -
  define st1 where "st1 = st\<lparr>lastFaceDetectedTime := Some now\<rparr>"
  define st2 where "st2 = (if noFaceStartTime st1 \<noteq> None
                    then logEvent FaceDetectedAgain Success ts (st1\<lparr>noFaceStartTime := None\<rparr>)
                    else st1)"
  define st3 where "st3 = (if length faces > 1 \<and> multipleFacesCount st2 = 0
                    then logEvent (MultipleFacesDetected (length faces)) Error ts
                           (st2\<lparr>multipleFacesCount := multipleFacesCount st2 + 1\<rparr>)
                    else st2)"
  have "processFaceDetectionResults faces now ts st
          = (case forEachFace faces now ts (False, st3) of
               (flag, st4) \<Rightarrow>
                 st4\<lparr>focusIndicator := (if flag then LookingAwayShown else CandidateFocused)\<rparr>)"
    using ne by (simp add: processFaceDetectionResults_def Let_def st1_def st2_def st3_def)
  then have res: "processFaceDetectionResults faces now ts st
           = (snd (forEachFace faces now ts (False, st3)))
               \<lparr>focusIndicator := (if fst (forEachFace faces now ts (False, st3))
                                    then LookingAwayShown else CandidateFocused)\<rparr>"
    by (simp add: case_prod_beta)
  have f: "gazeDirectionHistory st3 = gazeDirectionHistory st"
    "lookingAwayStartTime st3 = lookingAwayStartTime st"
    "lookAwayCount st3 = lookAwayCount st"
    "noFaceCount st3 = noFaceCount st"
    "multipleFacesCount st3
       = (if length faces > 1 \<and> multipleFacesCount st = 0 then 1 else multipleFacesCount st)"
    by (simp_all add: st3_def st2_def st1_def)
  show ?thesis
    using res f by blast
qed

lemma processFace_multipleFaces:
  "multipleFacesCount (processFaceDetectionResults faces now ts st)
     = (if length faces > 1 \<and> multipleFacesCount st = 0 then 1 else multipleFacesCount st)"
proof (cases "faces = []")
  case True
  then show ?thesis
    by (simp add: processFaceDetectionResults_def handleNoFaceDetected_counters)
next
  case False
  obtain st3 where res: "processFaceDetectionResults faces now ts st
           = (snd (forEachFace faces now ts (False, st3)))
               \<lparr>focusIndicator := (if fst (forEachFace faces now ts (False, st3))
                                    then LookingAwayShown else CandidateFocused)\<rparr>"
    and m: "multipleFacesCount st3
             = (if length faces > 1 \<and> multipleFacesCount st = 0 then 1 else multipleFacesCount st)"
    using processFace_nonempty [OF False, of now ts st] by blast
  have "multipleFacesCount (processFaceDetectionResults faces now ts st) = multipleFacesCount st3"
    unfolding res using forEachFace_counters [of faces now ts False st3] by simp
  then show ?thesis
    using m by simp
qed

lemma forEachFace_history:
  "gazeDirectionHistory (snd (forEachFace fs now ts (flag, st)))
     = feedGaze (gazeDirectionHistory st) (map isLookingAway fs)"
proof (induction fs arbitrary: flag st)
  case Nil
  show ?case by (simp add: feedGaze_def)
next
  case (Cons f fs)
  obtain r st' where g: "gazeStep (isLookingAway f) now ts st = (r, st')"
    by (cases "gazeStep (isLookingAway f) now ts st")
  have h: "gazeDirectionHistory st' = pushGaze (isLookingAway f) (gazeDirectionHistory st)"
    using gazeStep_history [of "isLookingAway f" now ts st] g by simp
  have "forEachFace (f # fs) now ts (flag, st) = forEachFace fs now ts (if r then True else flag, st')"
    by (simp add: checkGazeDirection_def g)
  then show ?case
    using Cons.IH [of "if r then True else flag" st'] h by (simp add: feedGaze_def)
qed

lemma processFace_history:
  "faces \<noteq> [] \<Longrightarrow>
   gazeDirectionHistory (processFaceDetectionResults faces now ts st)
     = feedGaze (gazeDirectionHistory st) (map isLookingAway faces)"
proof -
  assume "faces \<noteq> []"
  then obtain st3 where res: "processFaceDetectionResults faces now ts st
           = (snd (forEachFace faces now ts (False, st3)))
               \<lparr>focusIndicator := (if fst (forEachFace faces now ts (False, st3))
                                    then LookingAwayShown else CandidateFocused)\<rparr>"
    and h: "gazeDirectionHistory st3 = gazeDirectionHistory st"
    using processFace_nonempty [of faces now ts st] by blast
  show ?thesis
    unfolding res using forEachFace_history [of faces now ts False st3] h by simp
qed

lemma processFace_history_length:
  "length (gazeDirectionHistory st) \<le> GAZE_HISTORY_LENGTH \<Longrightarrow>
   length (gazeDirectionHistory (processFaceDetectionResults faces now ts st)) \<le> GAZE_HISTORY_LENGTH"
proof (cases "faces = []")
  case True
  then show ?thesis
    by (simp add: processFaceDetectionResults_def handleNoFaceDetected_def Let_def
          split: option.splits)
next
  case False
  assume "length (gazeDirectionHistory st) \<le> GAZE_HISTORY_LENGTH"
  then show ?thesis
    by (simp add: processFace_history [OF False] feedGaze_length)
qed

lemma processObject_history:
  "gazeDirectionHistory (processObjectDetectionResults preds ts st) = gazeDirectionHistory st"
proof -
  have "gazeDirectionHistory (foldl (\<lambda>s item. handleProhibitedItemDetection item ts s) st items)
          = gazeDirectionHistory st" for items
    by (induction items arbitrary: st) (simp_all add: handleProhibitedItemDetection_def)
  then show ?thesis
    by (simp add: processObjectDetectionResults_def)
qed

lemma step_history_length:
  "length (gazeDirectionHistory st) \<le> GAZE_HISTORY_LENGTH \<Longrightarrow>
   length (gazeDirectionHistory (step st op)) \<le> GAZE_HISTORY_LENGTH"
proof (cases op)
  case (StartInterview camera recorder now ts)
  assume "length (gazeDirectionHistory st) \<le> GAZE_HISTORY_LENGTH"
  with StartInterview show ?thesis by (simp add: startInterview_def Let_def)
next
  case (StopInterview ts)
  assume "length (gazeDirectionHistory st) \<le> GAZE_HISTORY_LENGTH"
  with StopInterview show ?thesis by (simp add: stopInterview_def)
next
  case (FaceTick r now ts)
  assume "length (gazeDirectionHistory st) \<le> GAZE_HISTORY_LENGTH"
  with FaceTick show ?thesis
    by (cases r) (simp_all add: faceDetectionTick_def processFace_history_length)
next
  case (ObjectTick r ts)
  assume "length (gazeDirectionHistory st) \<le> GAZE_HISTORY_LENGTH"
  with ObjectTick show ?thesis
    by (cases r) (simp_all add: objectDetectionTick_def processObject_history)
next
  case (DownloadReport ok pdf ts)
  assume "length (gazeDirectionHistory st) \<le> GAZE_HISTORY_LENGTH"
  with DownloadReport show ?thesis by (simp add: downloadReport_def generatePDFReport_def Let_def)
qed

lemma run_history_length:
  "length (gazeDirectionHistory st) \<le> GAZE_HISTORY_LENGTH \<Longrightarrow>
   length (gazeDirectionHistory (run st ops)) \<le> GAZE_HISTORY_LENGTH"
proof (induction ops rule: rev_induct)
  case Nil
  then show ?case by (simp add: run_def)
next
  case (snoc op ops)
  then show ?case
    unfolding run_snoc by (intro step_history_length) simp
qed

text \<open>
  Claim C10. The history is one window of the session, shared by all faces: a frame
  with \<open>k \<ge> 1\<close> faces appends exactly \<open>k\<close> raw samples, one per face in the order of
  the face list, to that one history, each push followed by the eviction of the
  oldest entry beyond 8; so the samples of different faces interleave in the window,
  which is the last 8 entries of the old window followed by the new samples, and its
  length never exceeds 8 after any update.
\<close>

theorem C10_shared_history:
  "(faces \<noteq> [] \<longrightarrow>
      gazeDirectionHistory (processFaceDetectionResults faces now ts st)
        = feedGaze (gazeDirectionHistory st) (map isLookingAway faces))
   \<and> (faces \<noteq> [] \<and> length (gazeDirectionHistory st) \<le> 8 \<longrightarrow>
      gazeDirectionHistory (processFaceDetectionResults faces now ts st)
        = drop (length (gazeDirectionHistory st) + length faces - 8)
            (gazeDirectionHistory st @ map isLookingAway faces))
   \<and> (length (gazeDirectionHistory st) \<le> 8 \<longrightarrow>
      length (gazeDirectionHistory (processFaceDetectionResults faces now ts st)) \<le> 8)
   \<and> length (gazeDirectionHistory (run initial_session ops)) \<le> 8"
proof -
  have a: "faces \<noteq> [] \<longrightarrow>
      gazeDirectionHistory (processFaceDetectionResults faces now ts st)
        = feedGaze (gazeDirectionHistory st) (map isLookingAway faces)"
    by (simp add: processFace_history)
  have b: "faces \<noteq> [] \<and> length (gazeDirectionHistory st) \<le> 8 \<longrightarrow>
      gazeDirectionHistory (processFaceDetectionResults faces now ts st)
        = drop (length (gazeDirectionHistory st) + length faces - 8)
            (gazeDirectionHistory st @ map isLookingAway faces)"
    using feedGaze_drop [of "gazeDirectionHistory st" "map isLookingAway faces"]
    by (simp add: processFace_history GAZE_HISTORY_LENGTH_def)
  have c: "length (gazeDirectionHistory st) \<le> 8 \<longrightarrow>
      length (gazeDirectionHistory (processFaceDetectionResults faces now ts st)) \<le> 8"
    using processFace_history_length [of st faces now ts]
    by (simp add: GAZE_HISTORY_LENGTH_def)
  have d: "length (gazeDirectionHistory (run initial_session ops)) \<le> 8"
    using run_history_length [of initial_session ops]
    by (simp add: GAZE_HISTORY_LENGTH_def initial_session_def)
  show ?thesis
    using a b c d by blast
qed

text \<open>
  Four frames, each with the face that looks away followed by the focused one: the
  window holds their samples alternating; a fifth such frame evicts the two oldest.
\<close>

theorem C10_shared_history_witness:
  "[awayFace, awayFace] \<noteq> []
   \<and> length (gazeDirectionHistory (framesAt [awayFace, focusedFace] 0 200 ''10:00:00'' 4 initial_session)) \<le> 8
   \<and> gazeDirectionHistory (framesAt [awayFace, focusedFace] 0 200 ''10:00:00'' 4 initial_session)
       = [True, False, True, False, True, False, True, False]
   \<and> gazeDirectionHistory
        (processFaceDetectionResults [awayFace, awayFace] 800 ''10:00:00''
           (framesAt [awayFace, focusedFace] 0 200 ''10:00:00'' 4 initial_session))
       = [True, False, True, False, True, False, True, True]"
proof -
  have h: "gazeDirectionHistory (framesAt [awayFace, focusedFace] 0 200 ''10:00:00'' 4 initial_session)
             = [True, False, True, False, True, False, True, False]"
    by (simp add: eval_nat_numeral processFace_history feedGaze_def pushGaze_def awayFace_sample
          focusedFace_sample initial_session_def GAZE_HISTORY_LENGTH_def)
  show ?thesis
    using C10_shared_history
            [of "[awayFace, awayFace]" 800 "''10:00:00''"
                "framesAt [awayFace, focusedFace] 0 200 ''10:00:00'' 4 initial_session" "[]"]
    by (simp add: h processFace_history feedGaze_def pushGaze_def awayFace_sample
          GAZE_HISTORY_LENGTH_def)
qed

section \<open>The conditions that fire once\<close>

lemma secondsSince_gt:
  "(secondsSince now t0 > 8) = (now - t0 > 8000)"
  "(secondsSince now t0 > 2) = (now - t0 > 2000)"
  "(secondsSince now t0 > 1) = (now - t0 > 1000)"
  by (simp_all add: secondsSince_def) linarith+

lemma step_once:
  "noFaceCount (step st op) \<le> max 1 (noFaceCount st)
   \<and> multipleFacesCount (step st op) \<le> max 1 (multipleFacesCount st)"
proof (cases op)
  case (StartInterview camera recorder now ts)
  then show ?thesis by (simp add: startInterview_def Let_def)
next
  case (StopInterview ts)
  then show ?thesis by (simp add: stopInterview_def)
next
  case (FaceTick r now ts)
  show ?thesis
  proof (cases r)
    case None
    with FaceTick show ?thesis by (simp add: faceDetectionTick_def)
  next
    case (Some faces)
    with FaceTick show ?thesis
      using processFace_counters [of faces now ts st] by (simp add: faceDetectionTick_def)
  qed
next
  case (ObjectTick r ts)
  show ?thesis
  proof (cases r)
    case None
    with ObjectTick show ?thesis by (simp add: objectDetectionTick_def)
  next
    case (Some preds)
    with ObjectTick show ?thesis
      using processObject_counters [of preds ts st] by (simp add: objectDetectionTick_def)
  qed
next
  case (DownloadReport ok pdf ts)
  then show ?thesis by (simp add: downloadReport_def generatePDFReport_def Let_def)
qed

lemma run_once:
  "noFaceCount (run st ops) \<le> max 1 (noFaceCount st)
   \<and> multipleFacesCount (run st ops) \<le> max 1 (multipleFacesCount st)"
proof (induction ops rule: rev_induct)
  case Nil
  show ?case by (simp add: run_def)
next
  case (snoc op ops)
  show ?case
    using snoc.IH step_once [of "run st ops" op]
    unfolding run_snoc by (simp add: max_def split: if_splits)
qed

text \<open>Frames without a face, one per time of the list, in order.\<close>

lemma noFace_frame:
  "noFaceCount (processFaceDetectionResults [] now ts st)
     = (case noFaceStartTime st of
          None \<Rightarrow> noFaceCount st
        | Some t0 \<Rightarrow> if now - t0 > 8000 \<and> noFaceCount st = 0 then 1 else noFaceCount st)"
  "noFaceStartTime (processFaceDetectionResults [] now ts st)
     = (case noFaceStartTime st of
          None \<Rightarrow> Some now
        | Some t0 \<Rightarrow> if now - t0 > 8000 \<and> noFaceCount st = 0 then Some now else Some t0)"
  by (simp_all add: processFaceDetectionResults_def handleNoFaceDetected_def Let_def
        secondsSince_gt split: option.splits)

lemma noFace_frames_stay:
  "noFaceCount st = 1 \<Longrightarrow>
   noFaceCount (foldl (\<lambda>s t. processFaceDetectionResults [] t ts s) st instants) = 1"
proof (induction instants arbitrary: st)
  case Nil
  then show ?case by simp
next
  case (Cons t instants)
  have "noFaceCount (processFaceDetectionResults [] t ts st) = 1"
    using Cons.prems by (simp add: noFace_frame split: option.splits)
  then show ?case
    using Cons.IH by simp
qed

lemma noFace_frames_fire:
  "noFaceCount st = 0 \<Longrightarrow> noFaceStartTime st = Some t0 \<Longrightarrow> \<exists>t \<in> set instants. t - t0 > 8000 \<Longrightarrow>
   noFaceCount (foldl (\<lambda>s t. processFaceDetectionResults [] t ts s) st instants) = 1"
proof (induction instants arbitrary: st)
  case Nil
  then show ?case by simp
next
  case (Cons t instants)
  show ?case
  proof (cases "t - t0 > 8000")
    case True
    then have "noFaceCount (processFaceDetectionResults [] t ts st) = 1"
      using Cons.prems by (simp add: noFace_frame)
    then show ?thesis
      by (simp add: noFace_frames_stay)
  next
    case False
    then have a: "noFaceCount (processFaceDetectionResults [] t ts st) = 0"
      "noFaceStartTime (processFaceDetectionResults [] t ts st) = Some t0"
      using Cons.prems by (simp_all add: noFace_frame)
    have "\<exists>t \<in> set instants. t - t0 > 8000"
      using Cons.prems(3) False by auto
    then show ?thesis
      using Cons.IH [OF a] by simp
  qed
qed

text \<open>
  Claim C5. In every session \<open>noFaceCount\<close> and \<open>multipleFacesCount\<close> never exceed 1.
  When no violation has been counted yet, a run of frames without a face of which one
  comes more than 8 seconds after the first raises \<open>noFaceCount\<close> to exactly 1, however
  many more such frames follow, and a frame with more than one face raises
  \<open>multipleFacesCount\<close> to exactly 1; a counter that is 1 stays 1 under every later
  operation, also when the number of faces drops to 1 and returns to 2.
\<close>

theorem C5_fires_once:
  "noFaceCount (run initial_session ops) \<le> 1
   \<and> multipleFacesCount (run initial_session ops) \<le> 1
   \<and> (noFaceCount st = 0 \<and> noFaceStartTime st = None \<and> (\<exists>t \<in> set instants. t - t0 > 8000) \<longrightarrow>
        noFaceCount (foldl (\<lambda>s t. processFaceDetectionResults [] t ts s) st (t0 # instants)) = 1)
   \<and> (multipleFacesCount st = 0 \<and> length faces > 1 \<longrightarrow>
        multipleFacesCount (processFaceDetectionResults faces now ts st) = 1)
   \<and> (noFaceCount st = 1 \<longrightarrow> noFaceCount (run st ops) = 1)
   \<and> (multipleFacesCount st = 1 \<longrightarrow> multipleFacesCount (run st ops) = 1)"
proof -
  have a: "noFaceCount (run initial_session ops) \<le> 1 \<and> multipleFacesCount (run initial_session ops) \<le> 1"
    using run_once [of initial_session ops] by (simp add: initial_session_def)
  have b: "noFaceCount st = 0 \<and> noFaceStartTime st = None \<and> (\<exists>t \<in> set instants. t - t0 > 8000) \<longrightarrow>
        noFaceCount (foldl (\<lambda>s t. processFaceDetectionResults [] t ts s) st (t0 # instants)) = 1"
  proof (intro impI, elim conjE)
    assume c: "noFaceCount st = 0" and s: "noFaceStartTime st = None"
      and e: "\<exists>t \<in> set instants. t - t0 > 8000"
    have "noFaceCount (processFaceDetectionResults [] t0 ts st) = 0"
      "noFaceStartTime (processFaceDetectionResults [] t0 ts st) = Some t0"
      using c s by (simp_all add: noFace_frame)
    then show "noFaceCount (foldl (\<lambda>s t. processFaceDetectionResults [] t ts s) st (t0 # instants)) = 1"
      using noFace_frames_fire [OF _ _ e] by simp
  qed
  have c: "multipleFacesCount st = 0 \<and> length faces > 1 \<longrightarrow>
        multipleFacesCount (processFaceDetectionResults faces now ts st) = 1"
    by (simp add: processFace_multipleFaces)
  have d: "noFaceCount st = 1 \<longrightarrow> noFaceCount (run st ops) = 1"
    using run_once [of st ops] run_counters [of st ops] by auto
  have e: "multipleFacesCount st = 1 \<longrightarrow> multipleFacesCount (run st ops) = 1"
    using run_once [of st ops] run_counters [of st ops] by auto
  show ?thesis
    using a b c d e by blast
qed

text \<open>
  No face at 0, 4, 8, 8.2, 12 and 20 seconds: counted once. Two faces, then one,
  then two again: counted once.
\<close>

theorem C5_fires_once_witness:
  "noFaceCount initial_session = 0 \<and> noFaceStartTime initial_session = None
   \<and> (\<exists>t \<in> set [4000, 8000, 8200, 12000, 20000]. t - 0 > (8000::int))
   \<and> noFaceCount (foldl (\<lambda>s t. processFaceDetectionResults [] t ''10:00:00'' s) initial_session
        (0 # [4000, 8000, 8200, 12000, 20000])) = 1
   \<and> multipleFacesCount initial_session = 0 \<and> length [focusedFace, focusedFace] > 1
   \<and> multipleFacesCount (processFaceDetectionResults [focusedFace, focusedFace] 0 ''10:00:00'' initial_session) = 1
   \<and> multipleFacesCount
        (run (processFaceDetectionResults [focusedFace, focusedFace] 0 ''10:00:00''
               (initial_session\<lparr>isInterviewRunning := True\<rparr>))
           [FaceTick (Some [focusedFace]) 200 ''10:00:00'',
            FaceTick (Some [focusedFace, focusedFace]) 400 ''10:00:00'']) = 1"
proof -
  have h1: "noFaceCount initial_session = 0 \<and> noFaceStartTime initial_session = None
     \<and> (\<exists>t \<in> set [4000, 8000, 8200, 12000, 20000]. t - 0 > (8000::int))"
    by (simp add: initial_session_def)
  have h2: "multipleFacesCount initial_session = 0 \<and> length [focusedFace, focusedFace] > 1"
    by (simp add: initial_session_def)
  have h3: "multipleFacesCount (processFaceDetectionResults [focusedFace, focusedFace] 0 ''10:00:00''
               (initial_session\<lparr>isInterviewRunning := True\<rparr>)) = 1"
    by (simp add: processFace_multipleFaces initial_session_def)
  show ?thesis
    using h1 h2 h3
      C5_fires_once [of "[]" initial_session "[4000, 8000, 8200, 12000, 20000]" 0 "''10:00:00''"
                        "[focusedFace, focusedFace]" 0]
      C5_fires_once [of "[FaceTick (Some [focusedFace]) 200 ''10:00:00'',
                          FaceTick (Some [focusedFace, focusedFace]) 400 ''10:00:00'']"
                        "processFaceDetectionResults [focusedFace, focusedFace] 0 ''10:00:00''
                           (initial_session\<lparr>isInterviewRunning := True\<rparr>)"
                        "[]" 0 "''10:00:00''" "[]" 0]
    by simp
qed

section \<open>Look-away episodes\<close>

text \<open>
  The three fields that the episode logic reads and writes, after one gaze step and
  after one frame with a single face, in terms of their values before.
\<close>

lemma gazeStep_episode:
  "lookingAwayStartTime (snd (gazeStep raw now ts st))
     = (if isConsistentlyLookingAway (pushGaze raw (gazeDirectionHistory st))
        then (case lookingAwayStartTime st of
                None \<Rightarrow> Some now
              | Some t0 \<Rightarrow> if now - t0 > 2000 then Some now else Some t0)
        else None)"
  "lookAwayCount (snd (gazeStep raw now ts st))
     = (if isConsistentlyLookingAway (pushGaze raw (gazeDirectionHistory st))
        then (case lookingAwayStartTime st of
                None \<Rightarrow> lookAwayCount st
              | Some t0 \<Rightarrow> if now - t0 > 2000 then lookAwayCount st + 1 else lookAwayCount st)
        else lookAwayCount st)"
  "fst (gazeStep raw now ts st)
     = (isConsistentlyLookingAway (pushGaze raw (gazeDirectionHistory st))
        \<and> (case lookingAwayStartTime st of None \<Rightarrow> False | Some t0 \<Rightarrow> now - t0 > 2000))"
  by (simp_all add: gazeStep_def Let_def secondsSince_gt split: option.splits)

lemma single_face_frame:
  "gazeDirectionHistory (processFaceDetectionResults [f] now ts st)
     = pushGaze (isLookingAway f) (gazeDirectionHistory st)"
  "lookingAwayStartTime (processFaceDetectionResults [f] now ts st)
     = (if isConsistentlyLookingAway (pushGaze (isLookingAway f) (gazeDirectionHistory st))
        then (case lookingAwayStartTime st of
                None \<Rightarrow> Some now
              | Some t0 \<Rightarrow> if now - t0 > 2000 then Some now else Some t0)
        else None)"
  "lookAwayCount (processFaceDetectionResults [f] now ts st)
     = (if isConsistentlyLookingAway (pushGaze (isLookingAway f) (gazeDirectionHistory st))
        then (case lookingAwayStartTime st of
                None \<Rightarrow> lookAwayCount st
              | Some t0 \<Rightarrow> if now - t0 > 2000 then lookAwayCount st + 1 else lookAwayCount st)
        else lookAwayCount st)"
proof -
  have ne: "[f] \<noteq> []" by simp
  obtain st3 where res: "processFaceDetectionResults [f] now ts st
           = (snd (forEachFace [f] now ts (False, st3)))
               \<lparr>focusIndicator := (if fst (forEachFace [f] now ts (False, st3))
                                    then LookingAwayShown else CandidateFocused)\<rparr>"
    and h: "gazeDirectionHistory st3 = gazeDirectionHistory st"
    and s: "lookingAwayStartTime st3 = lookingAwayStartTime st"
    and c: "lookAwayCount st3 = lookAwayCount st"
    using processFace_nonempty [OF ne, of now ts st] by blast
  have one: "snd (forEachFace [f] now ts (False, st3)) = snd (gazeStep (isLookingAway f) now ts st3)"
    by (simp add: checkGazeDirection_def case_prod_beta)
  show "gazeDirectionHistory (processFaceDetectionResults [f] now ts st)
     = pushGaze (isLookingAway f) (gazeDirectionHistory st)"
    by (simp add: processFace_history feedGaze_def)
  show "lookingAwayStartTime (processFaceDetectionResults [f] now ts st)
     = (if isConsistentlyLookingAway (pushGaze (isLookingAway f) (gazeDirectionHistory st))
        then (case lookingAwayStartTime st of
                None \<Rightarrow> Some now
              | Some t0 \<Rightarrow> if now - t0 > 2000 then Some now else Some t0)
        else None)"
    unfolding res one by (simp add: gazeStep_episode h s)
  show "lookAwayCount (processFaceDetectionResults [f] now ts st)
     = (if isConsistentlyLookingAway (pushGaze (isLookingAway f) (gazeDirectionHistory st))
        then (case lookingAwayStartTime st of
                None \<Rightarrow> lookAwayCount st
              | Some t0 \<Rightarrow> if now - t0 > 2000 then lookAwayCount st + 1 else lookAwayCount st)
        else lookAwayCount st)"
    unfolding res one by (simp add: gazeStep_episode h s c split: option.splits)
qed

lemma framesAt_Suc:
  "framesAt faces t0 period ts (Suc n) st
     = processFaceDetectionResults faces (t0 + int n * period) ts (framesAt faces t0 period ts n st)"
proof (induction n arbitrary: t0 st)
  case 0
  show ?case by simp
next
  case (Suc n)
  have "framesAt faces t0 period ts (Suc (Suc n)) st
          = framesAt faces (t0 + period) period ts (Suc n) (processFaceDetectionResults faces t0 ts st)"
    by simp
  also have "\<dots> = processFaceDetectionResults faces (t0 + period + int n * period) ts
                     (framesAt faces (t0 + period) period ts n (processFaceDetectionResults faces t0 ts st))"
    by (rule Suc.IH)
  also have "\<dots> = processFaceDetectionResults faces (t0 + int (Suc n) * period) ts
                     (framesAt faces t0 period ts (Suc n) st)"
    by (simp add: algebra_simps)
  finally show ?case .
qed

lemma framesAt_add:
  "framesAt faces t0 period ts (m + n) st
     = framesAt faces (t0 + int m * period) period ts n (framesAt faces t0 period ts m st)"
proof (induction m arbitrary: t0 st)
  case 0
  show ?case by simp
next
  case (Suc m)
  show ?case
    using Suc.IH [of "t0 + period" "processFaceDetectionResults faces t0 ts st"]
    by (simp add: algebra_simps)
qed

text \<open>
  A face that looks away, seen alone every 200 ms by a session with an empty window
  and no open episode: the window, the episode start and the count after 4, 5, 15,
  16, 20 and 24 frames. The episode opens at the fifth frame (800 ms after the first),
  the first frame more than 2000 ms later is the sixteenth (at 3000 ms), and the next
  one would be the twenty-seventh.
\<close>

lemma sustained_look_away:
  assumes away: "isLookingAway f"
    and h: "gazeDirectionHistory st = []"
    and s: "lookingAwayStartTime st = None"
  shows "gazeDirectionHistory (framesAt [f] t 200 ts 4 st) = [True, True, True, True]
       \<and> lookingAwayStartTime (framesAt [f] t 200 ts 4 st) = None
       \<and> lookAwayCount (framesAt [f] t 200 ts 4 st) = lookAwayCount st
       \<and> lookingAwayStartTime (framesAt [f] t 200 ts 5 st) = Some (t + 800)
       \<and> lookAwayCount (framesAt [f] t 200 ts 5 st) = lookAwayCount st
       \<and> gazeDirectionHistory (framesAt [f] t 200 ts 15 st)
           = [True, True, True, True, True, True, True, True]
       \<and> lookingAwayStartTime (framesAt [f] t 200 ts 15 st) = Some (t + 800)
       \<and> lookAwayCount (framesAt [f] t 200 ts 15 st) = lookAwayCount st
       \<and> lookingAwayStartTime (framesAt [f] t 200 ts 16 st) = Some (t + 3000)
       \<and> lookAwayCount (framesAt [f] t 200 ts 16 st) = lookAwayCount st + 1
       \<and> lookingAwayStartTime (framesAt [f] t 200 ts 20 st) = Some (t + 3000)
       \<and> lookAwayCount (framesAt [f] t 200 ts 20 st) = lookAwayCount st + 1
       \<and> lookAwayCount (framesAt [f] t 200 ts 24 st) = lookAwayCount st + 1"
proof -
  let ?F = "\<lambda>n. framesAt [f] t 200 ts n st"
  let ?H = "\<lambda>n. gazeDirectionHistory (?F n)"
  let ?S = "\<lambda>n. lookingAwayStartTime (?F n)"
  let ?C = "\<lambda>n. lookAwayCount (?F n)"
  have frame: "?H (Suc n) = pushGaze True (?H n)
      \<and> ?S (Suc n) =
          (if isConsistentlyLookingAway (pushGaze True (?H n))
           then (case ?S n of
                   None \<Rightarrow> Some (t + int n * 200)
                 | Some t0 \<Rightarrow> if t + int n * 200 - t0 > 2000 then Some (t + int n * 200) else Some t0)
           else None)
      \<and> ?C (Suc n) =
          (if isConsistentlyLookingAway (pushGaze True (?H n))
           then (case ?S n of
                   None \<Rightarrow> ?C n
                 | Some t0 \<Rightarrow> if t + int n * 200 - t0 > 2000 then ?C n + 1 else ?C n)
           else ?C n)" for n
    unfolding framesAt_Suc single_face_frame using away by simp
  note ev = pushGaze_def consistently_iff lookingAwayFrames_def GAZE_HISTORY_LENGTH_def Let_def
  have f0: "?H 0 = [] \<and> ?S 0 = None \<and> ?C 0 = lookAwayCount st"
    using h s by simp
  have f1: "?H 1 = [True] \<and> ?S 1 = None \<and> ?C 1 = lookAwayCount st"
    using f0 frame [of 0] by (simp add: ev eval_nat_numeral del: framesAt.simps)
  have f2: "?H 2 = [True, True] \<and> ?S 2 = None \<and> ?C 2 = lookAwayCount st"
    using f1 frame [of 1] by (simp add: ev eval_nat_numeral del: framesAt.simps)
  have f3: "?H 3 = [True, True, True] \<and> ?S 3 = None \<and> ?C 3 = lookAwayCount st"
    using f2 frame [of 2] by (simp add: ev eval_nat_numeral del: framesAt.simps)
  have f4: "?H 4 = [True, True, True, True] \<and> ?S 4 = None \<and> ?C 4 = lookAwayCount st"
    using f3 frame [of 3] by (simp add: ev eval_nat_numeral del: framesAt.simps)
  have f5: "?H 5 = [True, True, True, True, True] \<and> ?S 5 = Some (t + 800) \<and> ?C 5 = lookAwayCount st"
    using f4 frame [of 4] by (simp add: ev eval_nat_numeral del: framesAt.simps)
  have f6: "?H 6 = [True, True, True, True, True, True] \<and> ?S 6 = Some (t + 800) \<and> ?C 6 = lookAwayCount st"
    using f5 frame [of 5] by (simp add: ev eval_nat_numeral del: framesAt.simps)
  have f7: "?H 7 = [True, True, True, True, True, True, True] \<and> ?S 7 = Some (t + 800) \<and> ?C 7 = lookAwayCount st"
    using f6 frame [of 6] by (simp add: ev eval_nat_numeral del: framesAt.simps)
  have f8: "?H 8 = [True, True, True, True, True, True, True, True] \<and> ?S 8 = Some (t + 800) \<and> ?C 8 = lookAwayCount st"
    using f7 frame [of 7] by (simp add: ev eval_nat_numeral del: framesAt.simps)
  have f9: "?H 9 = [True, True, True, True, True, True, True, True] \<and> ?S 9 = Some (t + 800) \<and> ?C 9 = lookAwayCount st"
    using f8 frame [of 8] by (simp add: ev eval_nat_numeral del: framesAt.simps)
  have f10: "?H 10 = [True, True, True, True, True, True, True, True] \<and> ?S 10 = Some (t + 800) \<and> ?C 10 = lookAwayCount st"
    using f9 frame [of 9] by (simp add: ev eval_nat_numeral del: framesAt.simps)
  have f11: "?H 11 = [True, True, True, True, True, True, True, True] \<and> ?S 11 = Some (t + 800) \<and> ?C 11 = lookAwayCount st"
    using f10 frame [of 10] by (simp add: ev eval_nat_numeral del: framesAt.simps)
  have f12: "?H 12 = [True, True, True, True, True, True, True, True] \<and> ?S 12 = Some (t + 800) \<and> ?C 12 = lookAwayCount st"
    using f11 frame [of 11] by (simp add: ev eval_nat_numeral del: framesAt.simps)
  have f13: "?H 13 = [True, True, True, True, True, True, True, True] \<and> ?S 13 = Some (t + 800) \<and> ?C 13 = lookAwayCount st"
    using f12 frame [of 12] by (simp add: ev eval_nat_numeral del: framesAt.simps)
  have f14: "?H 14 = [True, True, True, True, True, True, True, True] \<and> ?S 14 = Some (t + 800) \<and> ?C 14 = lookAwayCount st"
    using f13 frame [of 13] by (simp add: ev eval_nat_numeral del: framesAt.simps)
  have f15: "?H 15 = [True, True, True, True, True, True, True, True] \<and> ?S 15 = Some (t + 800) \<and> ?C 15 = lookAwayCount st"
    using f14 frame [of 14] by (simp add: ev eval_nat_numeral del: framesAt.simps)
  have f16: "?H 16 = [True, True, True, True, True, True, True, True] \<and> ?S 16 = Some (t + 3000) \<and> ?C 16 = lookAwayCount st + 1"
    using f15 frame [of 15] by (simp add: ev eval_nat_numeral del: framesAt.simps)
  have f17: "?H 17 = [True, True, True, True, True, True, True, True] \<and> ?S 17 = Some (t + 3000) \<and> ?C 17 = lookAwayCount st + 1"
    using f16 frame [of 16] by (simp add: ev eval_nat_numeral del: framesAt.simps)
  have f18: "?H 18 = [True, True, True, True, True, True, True, True] \<and> ?S 18 = Some (t + 3000) \<and> ?C 18 = lookAwayCount st + 1"
    using f17 frame [of 17] by (simp add: ev eval_nat_numeral del: framesAt.simps)
  have f19: "?H 19 = [True, True, True, True, True, True, True, True] \<and> ?S 19 = Some (t + 3000) \<and> ?C 19 = lookAwayCount st + 1"
    using f18 frame [of 18] by (simp add: ev eval_nat_numeral del: framesAt.simps)
  have f20: "?H 20 = [True, True, True, True, True, True, True, True] \<and> ?S 20 = Some (t + 3000) \<and> ?C 20 = lookAwayCount st + 1"
    using f19 frame [of 19] by (simp add: ev eval_nat_numeral del: framesAt.simps)
  have f21: "?H 21 = [True, True, True, True, True, True, True, True] \<and> ?S 21 = Some (t + 3000) \<and> ?C 21 = lookAwayCount st + 1"
    using f20 frame [of 20] by (simp add: ev eval_nat_numeral del: framesAt.simps)
  have f22: "?H 22 = [True, True, True, True, True, True, True, True] \<and> ?S 22 = Some (t + 3000) \<and> ?C 22 = lookAwayCount st + 1"
    using f21 frame [of 21] by (simp add: ev eval_nat_numeral del: framesAt.simps)
  have f23: "?H 23 = [True, True, True, True, True, True, True, True] \<and> ?S 23 = Some (t + 3000) \<and> ?C 23 = lookAwayCount st + 1"
    using f22 frame [of 22] by (simp add: ev eval_nat_numeral del: framesAt.simps)
  have f24: "?H 24 = [True, True, True, True, True, True, True, True] \<and> ?S 24 = Some (t + 3000) \<and> ?C 24 = lookAwayCount st + 1"
    using f23 frame [of 23] by (simp add: ev eval_nat_numeral del: framesAt.simps)
  show ?thesis
    using f4 f5 f15 f16 f20 f24 by simp
qed

text \<open>
  Claim C4, as amended. When the window becomes ``consistently looking away'' and no
  episode is open, the episode opens at the current time and \<open>lookAwayCount\<close> is not
  incremented on that step. On a later step where the condition still holds and more
  than 2.0 seconds have passed since the episode start, \<open>lookAwayCount\<close> is incremented
  by 1 and the episode start is reset to the current time; when at most 2.0 seconds
  have passed, nothing changes. So a look-away sustained for 20 frames at a cadence of
  200 ms, seen by a session with an empty window and no open episode, increments
  \<open>lookAwayCount\<close> by exactly 1: the episode opens at the fifth frame (800 ms), and
  the sixteenth frame (3000 ms) is the only one of the twenty that comes more than
  2000 ms after an episode start.
\<close>

theorem C4_lookaway_episodes:
  "(isConsistentlyLookingAway (pushGaze raw (gazeDirectionHistory st))
      \<and> lookingAwayStartTime st = None \<longrightarrow>
        fst (gazeStep raw now ts st) = False
        \<and> lookingAwayStartTime (snd (gazeStep raw now ts st)) = Some now
        \<and> lookAwayCount (snd (gazeStep raw now ts st)) = lookAwayCount st)
   \<and> (isConsistentlyLookingAway (pushGaze raw (gazeDirectionHistory st))
      \<and> lookingAwayStartTime st = Some t0 \<and> secondsSince now t0 > 2 \<longrightarrow>
        fst (gazeStep raw now ts st) = True
        \<and> lookingAwayStartTime (snd (gazeStep raw now ts st)) = Some now
        \<and> lookAwayCount (snd (gazeStep raw now ts st)) = lookAwayCount st + 1)
   \<and> (isConsistentlyLookingAway (pushGaze raw (gazeDirectionHistory st))
      \<and> lookingAwayStartTime st = Some t0 \<and> \<not> secondsSince now t0 > 2 \<longrightarrow>
        fst (gazeStep raw now ts st) = False
        \<and> lookingAwayStartTime (snd (gazeStep raw now ts st)) = Some t0
        \<and> lookAwayCount (snd (gazeStep raw now ts st)) = lookAwayCount st)
   \<and> (isLookingAway f \<and> gazeDirectionHistory st = [] \<and> lookingAwayStartTime st = None \<longrightarrow>
        lookingAwayStartTime (framesAt [f] t 200 ts 4 st) = None
        \<and> lookingAwayStartTime (framesAt [f] t 200 ts 5 st) = Some (t + 800)
        \<and> lookAwayCount (framesAt [f] t 200 ts 15 st) = lookAwayCount st
        \<and> lookAwayCount (framesAt [f] t 200 ts 16 st) = lookAwayCount st + 1
        \<and> lookingAwayStartTime (framesAt [f] t 200 ts 16 st) = Some (t + 3000)
        \<and> lookAwayCount (framesAt [f] t 200 ts 20 st) = lookAwayCount st + 1)"
proof -
  have a: "isConsistentlyLookingAway (pushGaze raw (gazeDirectionHistory st))
      \<and> lookingAwayStartTime st = None \<longrightarrow>
        fst (gazeStep raw now ts st) = False
        \<and> lookingAwayStartTime (snd (gazeStep raw now ts st)) = Some now
        \<and> lookAwayCount (snd (gazeStep raw now ts st)) = lookAwayCount st"
    by (simp add: gazeStep_episode)
  have b: "isConsistentlyLookingAway (pushGaze raw (gazeDirectionHistory st))
      \<and> lookingAwayStartTime st = Some t0 \<and> secondsSince now t0 > 2 \<longrightarrow>
        fst (gazeStep raw now ts st) = True
        \<and> lookingAwayStartTime (snd (gazeStep raw now ts st)) = Some now
        \<and> lookAwayCount (snd (gazeStep raw now ts st)) = lookAwayCount st + 1"
    by (simp add: gazeStep_episode secondsSince_gt)
  have c: "isConsistentlyLookingAway (pushGaze raw (gazeDirectionHistory st))
      \<and> lookingAwayStartTime st = Some t0 \<and> \<not> secondsSince now t0 > 2 \<longrightarrow>
        fst (gazeStep raw now ts st) = False
        \<and> lookingAwayStartTime (snd (gazeStep raw now ts st)) = Some t0
        \<and> lookAwayCount (snd (gazeStep raw now ts st)) = lookAwayCount st"
    by (simp add: gazeStep_episode secondsSince_gt)
  have d: "isLookingAway f \<and> gazeDirectionHistory st = [] \<and> lookingAwayStartTime st = None \<longrightarrow>
        lookingAwayStartTime (framesAt [f] t 200 ts 4 st) = None
        \<and> lookingAwayStartTime (framesAt [f] t 200 ts 5 st) = Some (t + 800)
        \<and> lookAwayCount (framesAt [f] t 200 ts 15 st) = lookAwayCount st
        \<and> lookAwayCount (framesAt [f] t 200 ts 16 st) = lookAwayCount st + 1
        \<and> lookingAwayStartTime (framesAt [f] t 200 ts 16 st) = Some (t + 3000)
        \<and> lookAwayCount (framesAt [f] t 200 ts 20 st) = lookAwayCount st + 1"
    using sustained_look_away [of f st t ts] by blast
  show ?thesis
    using a b c d by blast
qed

text \<open>
  The face that looks away, every 200 ms from time 0 in a fresh session. After four
  frames the fifth opens the episode without counting; after fifteen frames (episode
  open since 800 ms) a frame at 2800 ms counts nothing, as exactly 2.0 seconds have
  passed, and a frame at 3000 ms counts one; twenty frames count one.
\<close>

theorem C4_lookaway_episodes_witness:
  "isConsistentlyLookingAway
     (pushGaze True (gazeDirectionHistory (framesAt [awayFace] 0 200 ''10:00:00'' 4 initial_session)))
   \<and> lookingAwayStartTime (framesAt [awayFace] 0 200 ''10:00:00'' 4 initial_session) = None
   \<and> lookAwayCount (snd (gazeStep True 800 ''10:00:00''
        (framesAt [awayFace] 0 200 ''10:00:00'' 4 initial_session))) = 0
   \<and> isConsistentlyLookingAway
     (pushGaze True (gazeDirectionHistory (framesAt [awayFace] 0 200 ''10:00:00'' 15 initial_session)))
   \<and> lookingAwayStartTime (framesAt [awayFace] 0 200 ''10:00:00'' 15 initial_session) = Some 800
   \<and> secondsSince 3000 800 > 2
   \<and> lookAwayCount (snd (gazeStep True 3000 ''10:00:00''
        (framesAt [awayFace] 0 200 ''10:00:00'' 15 initial_session))) = 1
   \<and> \<not> secondsSince 2800 800 > 2
   \<and> lookAwayCount (snd (gazeStep True 2800 ''10:00:00''
        (framesAt [awayFace] 0 200 ''10:00:00'' 15 initial_session))) = 0
   \<and> isLookingAway awayFace \<and> gazeDirectionHistory initial_session = []
   \<and> lookingAwayStartTime initial_session = None
   \<and> lookAwayCount (framesAt [awayFace] 0 200 ''10:00:00'' 20 initial_session) = 1"
proof -
  note f = sustained_look_away [OF awayFace_sample, of initial_session 0 "''10:00:00''"]
  have i: "gazeDirectionHistory initial_session = []" "lookingAwayStartTime initial_session = None"
    "lookAwayCount initial_session = 0"
    by (simp_all add: initial_session_def)
  have h4: "gazeDirectionHistory (framesAt [awayFace] 0 200 ''10:00:00'' 4 initial_session)
              = [True, True, True, True]"
    and s4: "lookingAwayStartTime (framesAt [awayFace] 0 200 ''10:00:00'' 4 initial_session) = None"
    and c4: "lookAwayCount (framesAt [awayFace] 0 200 ''10:00:00'' 4 initial_session) = 0"
    and h15: "gazeDirectionHistory (framesAt [awayFace] 0 200 ''10:00:00'' 15 initial_session)
              = [True, True, True, True, True, True, True, True]"
    and s15: "lookingAwayStartTime (framesAt [awayFace] 0 200 ''10:00:00'' 15 initial_session) = Some 800"
    and c15: "lookAwayCount (framesAt [awayFace] 0 200 ''10:00:00'' 15 initial_session) = 0"
    and c20: "lookAwayCount (framesAt [awayFace] 0 200 ''10:00:00'' 20 initial_session) = 1"
    using f i by simp_all
  show ?thesis
    using C4_lookaway_episodes
            [of True "framesAt [awayFace] 0 200 ''10:00:00'' 4 initial_session" 800 "''10:00:00''"
                0 awayFace 0]
          C4_lookaway_episodes
            [of True "framesAt [awayFace] 0 200 ''10:00:00'' 15 initial_session" 3000 "''10:00:00''"
                800 awayFace 0]
          C4_lookaway_episodes
            [of True "framesAt [awayFace] 0 200 ''10:00:00'' 15 initial_session" 2800 "''10:00:00''"
                800 awayFace 0]
          C4_lookaway_episodes
            [of True initial_session 0 "''10:00:00''" 0 awayFace 0]
    by (simp add: h4 s4 c4 h15 s15 c15 c20 i awayFace_sample gazeStep_episode pushGaze_def
          consistently_iff lookingAwayFrames_def GAZE_HISTORY_LENGTH_def secondsSince_def)
qed

text \<open>
  Against claim C4 as stated: in a fresh session, 20 consecutive frames at 200 ms in
  which the face is classified as looking away raise \<open>lookAwayCount\<close> by 1, not by 2;
  and so do 20 such frames counted from the frame at which the episode opens.
\<close>

theorem C4_twenty_frames_counterexample:
  "isLookingAway awayFace
   \<and> lookAwayCount (framesAt [awayFace] 0 200 ''10:00:00'' 20 initial_session)
       = lookAwayCount initial_session + 1
   \<and> lookAwayCount (framesAt [awayFace] 0 200 ''10:00:00'' 20 initial_session)
       \<noteq> lookAwayCount initial_session + 2
   \<and> lookingAwayStartTime (framesAt [awayFace] 0 200 ''10:00:00'' 4 initial_session) = None
   \<and> lookAwayCount (framesAt [awayFace] 800 200 ''10:00:00'' 20
                      (framesAt [awayFace] 0 200 ''10:00:00'' 4 initial_session))
       = lookAwayCount (framesAt [awayFace] 0 200 ''10:00:00'' 4 initial_session) + 1"
proof -
  note f = sustained_look_away [OF awayFace_sample, of initial_session 0 "''10:00:00''"]
  have i: "gazeDirectionHistory initial_session = []" "lookingAwayStartTime initial_session = None"
    by (simp_all add: initial_session_def)
  have c4: "lookAwayCount (framesAt [awayFace] 0 200 ''10:00:00'' 4 initial_session)
              = lookAwayCount initial_session"
    and s4: "lookingAwayStartTime (framesAt [awayFace] 0 200 ''10:00:00'' 4 initial_session) = None"
    and c20: "lookAwayCount (framesAt [awayFace] 0 200 ''10:00:00'' 20 initial_session)
              = lookAwayCount initial_session + 1"
    and c24: "lookAwayCount (framesAt [awayFace] 0 200 ''10:00:00'' 24 initial_session)
              = lookAwayCount initial_session + 1"
    using f i by simp_all
  have "framesAt [awayFace] 0 200 ''10:00:00'' (4 + 20) initial_session
          = framesAt [awayFace] (0 + int 4 * 200) 200 ''10:00:00'' 20
              (framesAt [awayFace] 0 200 ''10:00:00'' 4 initial_session)"
    by (rule framesAt_add)
  then have later: "framesAt [awayFace] 800 200 ''10:00:00'' 20
              (framesAt [awayFace] 0 200 ''10:00:00'' 4 initial_session)
          = framesAt [awayFace] 0 200 ''10:00:00'' 24 initial_session"
    by simp
  show ?thesis
    unfolding later using awayFace_sample c4 s4 c20 c24 by simp
qed

section \<open>Export of the report\<close>

text \<open>
  What the reports endpoint stores for the payload of a session that has a start
  time: the six counters and the event log as they are, and the score unless it is 0,
  which \<^verbatim>\<open>integrityScore || 100\<close> replaces by 100.
\<close>

lemma report_export:
  assumes "startTime st = Some t0"
  shows "\<exists>body. reportData duration toISO endNow st = Some body
       \<and> focusIssues_s (post_reports newId nowISO body)
           = \<lparr> lookAwayCount_r = lookAwayCount st, noFaceCount_r = noFaceCount st,
               multipleFacesCount_r = multipleFacesCount st \<rparr>
       \<and> prohibitedItems_s (post_reports newId nowISO body)
           = \<lparr> phonesDetected = phoneCount st, booksDetected = bookCount st,
               devicesDetected = deviceCount st \<rparr>
       \<and> events_s (post_reports newId nowISO body) = eventLog st
       \<and> integrityScore_s (post_reports newId nowISO body)
           = (if integrityScore st = 0 then 100 else integrityScore st)"
  using assms
  by (simp add: reportData_def post_reports_def or_object_def or_number_def)

text \<open>
  Claim C8 (exporting a session to the persisted report and reading the record back
  yields the same counters, events and integrity score, for every score from 0 to
  100) fails for the score 0. A session with ten phone detections has score 0; the
  record stored for its payload has the same counters and events and the score 100.
\<close>

theorem C8_zero_score_stored_as_100:
  "integrityScore tenPhonesSession = 0
   \<and> map_option (\<lambda>body. integrityScore_s
                    (post_reports ''m1abc'' ''2024-01-01T10:05:00.000Z'' body))
        (reportData ''00:05:00'' (\<lambda>t. ''2024-01-01T10:00:00.000Z'') 300000 tenPhonesSession)
       = Some 100
   \<and> map_option (\<lambda>body. phonesDetected (prohibitedItems_s
                    (post_reports ''m1abc'' ''2024-01-01T10:05:00.000Z'' body)))
        (reportData ''00:05:00'' (\<lambda>t. ''2024-01-01T10:00:00.000Z'') 300000 tenPhonesSession)
       = Some 10"
  by (simp add: tenPhonesSession_def initial_session_def integrityScore_def deductions_def
        reportData_def post_reports_def or_object_def or_number_def)

end
